theory Spec2Isabelle
  imports Main "HOL-Library.Sublist" "HOL-Library.AList"
begin

section \<open>The PyPi API client of anaconda-packaging-utils\<close>

text \<open>
  A shallow embedding of \<^verbatim>\<open>anaconda_packaging_utils/api/pypi_api.py\<close> (and of the
  exception class it shares with \<^verbatim>\<open>jira_api.py\<close>). Python strings are modelled as
  \<open>string\<close>; the code only compares them, tests them for emptiness and searches a
  substring in them. Python integers are \<open>int\<close>. A raised exception is the left
  summand of a sum type.
\<close>

subsection \<open>JSON values\<close>

text \<open>
  The value \<^verbatim>\<open>response.json()\<close> returns: \<^verbatim>\<open>None\<close>, a bool, an int, a str, a list
  or a dict. A dict is the list of its items in iteration order; a Python dict has every
  key once. Numbers with a fraction or an exponent (Python floats) are not modelled.
\<close>

datatype json =
    JNull
  | JBool bool
  | JInt int
  | JString string
  | JArray "json list"
  | JObject "(string \<times> json) list"

subsection \<open>JSON schemas\<close>

text \<open>
  The schemas of the source are dictionaries handed to \<^verbatim>\<open>jsonschema.validate\<close>. A schema
  is modelled by the set of instances it accepts, written as a predicate; one combinator
  per schema keyword the source uses. Each keyword constrains only instances of the kind
  it speaks about (\<^verbatim>\<open>required\<close> and \<^verbatim>\<open>properties\<close> say nothing of a value that is not an
  object), and a schema is the conjunction of its keywords.
\<close>

datatype jtype = T_object | T_array | T_string | T_integer | T_null

fun has_type :: "jtype \<Rightarrow> json \<Rightarrow> bool" where
  "has_type T_object (JObject kv) = True"
| "has_type T_array (JArray xs) = True"
| "has_type T_string (JString s) = True"
| "has_type T_integer (JInt i) = True"
| "has_type T_null JNull = True"
| "has_type t j = False"

definition type_in :: "jtype list \<Rightarrow> json \<Rightarrow> bool" where
  "type_in ts j = list_ex (\<lambda>t. has_type t j) ts"

definition required :: "string list \<Rightarrow> json \<Rightarrow> bool" where
  "required ks j =
     (case j of JObject kv \<Rightarrow> list_all (\<lambda>k. map_of kv k \<noteq> None) ks | _ \<Rightarrow> True)"

definition properties :: "(string \<times> (json \<Rightarrow> bool)) list \<Rightarrow> json \<Rightarrow> bool" where
  "properties ps j =
     (case j of
        JObject kv \<Rightarrow>
          list_all (\<lambda>(k, sch). case map_of kv k of None \<Rightarrow> True | Some v \<Rightarrow> sch v) ps
      | _ \<Rightarrow> True)"

definition items :: "(json \<Rightarrow> bool) \<Rightarrow> json \<Rightarrow> bool" where
  "items sch j = (case j of JArray xs \<Rightarrow> list_all sch xs | _ \<Rightarrow> True)"

text \<open>
  \<^verbatim>\<open>"patternProperties": {"^.*$": sch}\<close> with \<^verbatim>\<open>"additionalProperties": False\<close>: every
  value under a key the pattern matches satisfies \<open>sch\<close>, and the object has no other
  key. The source's comment is that the pattern accepts every version string; the model
  takes every key as matched, so it admits at least the objects the validator admits.
\<close>

definition any_version_key :: "string \<Rightarrow> bool" where
  "any_version_key k = True"

definition patternProperties :: "(string \<Rightarrow> bool) \<Rightarrow> (json \<Rightarrow> bool) \<Rightarrow> json \<Rightarrow> bool" where
  "patternProperties pat sch j =
     (case j of
        JObject kv \<Rightarrow> list_all (\<lambda>(k, v). if pat k then sch v else True) kv
      | _ \<Rightarrow> True)"

definition no_additionalProperties :: "(string \<Rightarrow> bool) \<Rightarrow> json \<Rightarrow> bool" where
  "no_additionalProperties pat j =
     (case j of JObject kv \<Rightarrow> list_all (\<lambda>(k, v). pat k) kv | _ \<Rightarrow> True)"

text \<open>\<^verbatim>\<open>VersionMetadata.get_schema()\<close>\<close>

definition digests_schema :: "json \<Rightarrow> bool" where
  "digests_schema j =
     (type_in [T_object] j \<and>
      required [''md5'', ''sha256''] j \<and>
      properties [(''md5'', type_in [T_string]), (''sha256'', type_in [T_string])] j)"

definition VersionMetadata_get_schema :: "json \<Rightarrow> bool" where
  "VersionMetadata_get_schema j =
     (type_in [T_object] j \<and>
      required [''digests'', ''filename'', ''python_version'', ''size'',
                ''upload_time_iso_8601'', ''url''] j \<and>
      properties
        [(''digests'', digests_schema),
         (''filename'', type_in [T_string]),
         (''python_version'', type_in [T_string]),
         (''size'', type_in [T_integer]),
         (''upload_time_iso_8601'', type_in [T_string]),
         (''url'', type_in [T_string])] j)"

text \<open>\<^verbatim>\<open>PackageInfo.get_schema(requires_releases)\<close>\<close>

definition project_urls_schema :: "json \<Rightarrow> bool" where
  "project_urls_schema j =
     (type_in [T_object] j \<and>
      properties [(''Homepage'', type_in [T_string]), (''Source'', type_in [T_string])] j)"

definition info_schema :: "json \<Rightarrow> bool" where
  "info_schema j =
     (type_in [T_object] j \<and>
      required [''description'', ''description_content_type'', ''docs_url'', ''license'',
                ''name'', ''package_url'', ''project_url'', ''project_urls'',
                ''release_url'', ''requires_python'', ''summary'', ''version''] j \<and>
      properties
        [(''description'', type_in [T_string, T_null]),
         (''description_content_type'', type_in [T_string, T_null]),
         (''docs_url'', type_in [T_string, T_null]),
         (''license'', type_in [T_string]),
         (''name'', type_in [T_string]),
         (''package_url'', type_in [T_string]),
         (''project_url'', type_in [T_string]),
         (''project_urls'', project_urls_schema),
         (''release_url'', type_in [T_string]),
         (''requires_python'', type_in [T_string]),
         (''summary'', type_in [T_string, T_null]),
         (''version'', type_in [T_string])] j)"

definition releases_schema :: "json \<Rightarrow> bool" where
  "releases_schema j =
     (type_in [T_object] j \<and>
      patternProperties any_version_key
        (\<lambda>a. type_in [T_array] a \<and> items VersionMetadata_get_schema a) j \<and>
      no_additionalProperties any_version_key j)"

definition urls_schema :: "json \<Rightarrow> bool" where
  "urls_schema j = (type_in [T_array] j \<and> items VersionMetadata_get_schema j)"

definition PackageInfo_get_schema :: "bool \<Rightarrow> json \<Rightarrow> bool" where
  "PackageInfo_get_schema requires_releases j =
     (type_in [T_object] j \<and>
      required ([''info'', ''urls''] @ (if requires_releases then [''releases''] else [])) j \<and>
      properties
        [(''info'', info_schema),
         (''releases'', releases_schema),
         (''urls'', urls_schema)] j)"

subsection \<open>Records and errors\<close>

text \<open>
  \<^verbatim>\<open>datetime.datetime\<close>: the fields of a parsed timestamp; the offset from UTC, in
  seconds, when the timestamp names one.
\<close>

datatype datetime = Datetime nat nat nat nat nat nat nat "int option"

record VersionMetadata =
  md5 :: string
  sha256 :: string
  filename :: string
  python_version :: string
  size_v :: int
  upload_time :: datetime
  url :: string

record PackageInfo =
  description :: string
  description_content_type :: string
  docs_url :: string
  license :: string
  name :: string
  package_url :: string
  project_url :: string
  homepage_url :: string
  source_url :: string
  release_url :: string
  requires_python :: string
  summary :: string
  version :: string
  source_metadata :: VersionMetadata

text \<open>
  \<^verbatim>\<open>PackageMetadata.releases\<close> is a \<^verbatim>\<open>dict[str, VersionMetadata]\<close>: the list of its items
  in insertion order. \<^verbatim>\<open>releases[k] = v\<close> is \<^const>\<open>AList.update\<close>: it replaces the value
  of a key that is there, in place, and appends a new key.
\<close>

record PackageMetadata =
  info :: PackageInfo
  releases :: "(string \<times> VersionMetadata) list"

text \<open>
  The outcome of a raise. \<open>ApiException m\<close> is an \<^verbatim>\<open>ApiException\<close> whose message is
  \<open>m\<close>. The parsing functions of the source require JSON that was validated against
  the schema (their docstrings' pre-requisite); \<open>PreconditionViolated\<close> is what the
  model returns where a value has not the shape the schema promises and the source would
  raise a \<^verbatim>\<open>KeyError\<close> or \<^verbatim>\<open>TypeError\<close> or go on with a value of another type.
\<close>

datatype error = ApiException string | PreconditionViolated

text \<open>
  \<^verbatim>\<open>ApiException.__init__\<close>, the same in \<^verbatim>\<open>pypi_api.py\<close> and \<^verbatim>\<open>jira_api.py\<close>:
  \<^verbatim>\<open>super().__init__(message if len(message) else "An unknown API issue was encountered.")\<close>
\<close>

definition ApiException_init :: "string \<Rightarrow> error" where
  "ApiException_init message =
     ApiException (if length message \<noteq> 0 then message
                   else ''An unknown API issue was encountered.'')"

subsection \<open>Reading validated JSON\<close>

text \<open>\<^verbatim>\<open>data[key]\<close> on a dict.\<close>

definition obj_get :: "json \<Rightarrow> string \<Rightarrow> json option" where
  "obj_get data key = (case data of JObject kv \<Rightarrow> map_of kv key | _ \<Rightarrow> None)"

definition get_member :: "json \<Rightarrow> string \<Rightarrow> error + json" where
  "get_member data key =
     (case obj_get data key of None \<Rightarrow> Inl PreconditionViolated | Some v \<Rightarrow> Inr v)"

text \<open>\<^verbatim>\<open>str(data[key])\<close> where the schema has a string.\<close>

definition get_string :: "json \<Rightarrow> string \<Rightarrow> error + string" where
  "get_string data key =
     (case obj_get data key of Some (JString s) \<Rightarrow> Inr s | _ \<Rightarrow> Inl PreconditionViolated)"

text \<open>\<^verbatim>\<open>str(data[key] or "")\<close> where the schema has a string or null.\<close>

definition get_string_or_empty :: "json \<Rightarrow> string \<Rightarrow> error + string" where
  "get_string_or_empty data key =
     (case obj_get data key of
        Some (JString s) \<Rightarrow> Inr s
      | Some JNull \<Rightarrow> Inr ''''
      | _ \<Rightarrow> Inl PreconditionViolated)"

text \<open>\<^verbatim>\<open>int(data[key])\<close> where the schema has an integer.\<close>

definition get_int :: "json \<Rightarrow> string \<Rightarrow> error + int" where
  "get_int data key =
     (case obj_get data key of Some (JInt i) \<Rightarrow> Inr i | _ \<Rightarrow> Inl PreconditionViolated)"

text \<open>Sequencing: an exception of the first step leaves the function.\<close>

definition and_then :: "error + 'a \<Rightarrow> ('a \<Rightarrow> error + 'b) \<Rightarrow> error + 'b" where
  "and_then m f = (case m of Inl e \<Rightarrow> Inl e | Inr x \<Rightarrow> f x)"

subsection \<open>Hash formats\<close>

text \<open>
  Modelled from the spec: \<^verbatim>\<open>is_valid_md5\<close> and \<^verbatim>\<open>is_valid_sha256\<close> of
  \<^verbatim>\<open>anaconda_packaging_utils.cryptography.utils\<close>, which is not among the sources. The
  spec's data model: the MD5 "must match 32 lowercase hex digits", the SHA-256 "must
  match 64 lowercase hex digits".
\<close>

definition is_lower_hex_digit :: "char \<Rightarrow> bool" where
  "is_lower_hex_digit c = (c \<in> set ''0123456789abcdef'')"

definition is_valid_md5 :: "string \<Rightarrow> bool" where
  "is_valid_md5 s = (length s = 32 \<and> list_all is_lower_hex_digit s)"

definition is_valid_sha256 :: "string \<Rightarrow> bool" where
  "is_valid_sha256 s = (length s = 64 \<and> list_all is_lower_hex_digit s)"

text \<open>A hex digit of either case, and a string of exactly \<open>n\<close> of them.\<close>

definition is_hex_digit :: "char \<Rightarrow> bool" where
  "is_hex_digit c = (c \<in> set ''0123456789abcdefABCDEF'')"

definition is_hex_string :: "nat \<Rightarrow> string \<Rightarrow> bool" where
  "is_hex_string n s = (length s = n \<and> list_all is_hex_digit s)"

subsection \<open>Artifact parsing\<close>

text \<open>\<^verbatim>\<open>_check_for_empty_field(field, value)\<close>; \<open>None\<close> is Python's \<^verbatim>\<open>None\<close>.\<close>

definition check_for_empty_field :: "string \<Rightarrow> string option \<Rightarrow> error + unit" where
  "check_for_empty_field field val =
     (case val of
        None \<Rightarrow> Inl (ApiException_init (''`'' @ field @ ''` field is empty: None''))
      | Some v \<Rightarrow>
          if length v = 0
          then Inl (ApiException_init (''`'' @ field @ ''` field is empty: '' @ v))
          else Inr ())"

text \<open>
  \<^verbatim>\<open>_parse_version_metadata(data)\<close>. \<^verbatim>\<open>datetime.datetime.fromisoformat\<close> is the Python
  library's; the model takes it as the parameter \<open>fromisoformat\<close>, \<open>None\<close> where it
  raises. \<^verbatim>\<open>int(...)\<close> of an int never raises.
\<close>

definition parse_version_metadata ::
  "(string \<Rightarrow> datetime option) \<Rightarrow> json \<Rightarrow> error + VersionMetadata" where
  "parse_version_metadata fromisoformat data =
     and_then (get_string data ''upload_time_iso_8601'') (\<lambda>time_str.
     and_then (case fromisoformat time_str of
             None \<Rightarrow> Inl (ApiException_init (''Failed to convert timestamp: '' @ time_str))
           | Some t \<Rightarrow> Inr t) (\<lambda>upload_time'.
     and_then (get_int data ''size'') (\<lambda>size'.
     and_then (get_member data ''digests'') (\<lambda>digests.
     and_then (get_string digests ''md5'') (\<lambda>md5'.
     and_then (get_string digests ''sha256'') (\<lambda>sha256'.
     and_then (get_string data ''filename'') (\<lambda>filename'.
     and_then (get_string data ''python_version'') (\<lambda>python_version'.
     and_then (get_string_or_empty data ''url'') (\<lambda>url'.
       let parsed = \<lparr>md5 = md5', sha256 = sha256', filename = filename',
                     python_version = python_version', size_v = size',
                     upload_time = upload_time', url = url'\<rparr>
       in if \<not> is_valid_md5 (md5 parsed)
          then Inl (ApiException_init (''VersionMetadata MD5 hash is invalid: '' @ md5 parsed))
          else if \<not> is_valid_sha256 (sha256 parsed)
          then Inl (ApiException_init
                      (''VersionMetadata SHA-256 hash is invalid: '' @ md5 parsed))
          else
            and_then (check_for_empty_field ''VersionMetadata.filename'' (Some (filename parsed)))
              (\<lambda>_.
            and_then (check_for_empty_field ''VersionMetadata.python_version''
                    (Some (python_version parsed))) (\<lambda>_.
            Inr parsed)))))))))))"

subsection \<open>Package info parsing\<close>

text \<open>
  The loop of \<^verbatim>\<open>_parse_package_info\<close> over \<^verbatim>\<open>data["urls"]\<close>: the first entry whose
  \<^verbatim>\<open>python_version\<close> is \<^verbatim>\<open>"source"\<close> is parsed and the loop is left; \<open>None\<close> when
  the loop ends with \<^verbatim>\<open>version_metadata\<close> still \<^verbatim>\<open>None\<close>.
\<close>

fun scan_urls ::
  "(string \<Rightarrow> datetime option) \<Rightarrow> json list \<Rightarrow> error + VersionMetadata option" where
  "scan_urls fromisoformat [] = Inr None"
| "scan_urls fromisoformat (u # urls) =
     (case get_member u ''python_version'' of
        Inl e \<Rightarrow> Inl e
      | Inr pv \<Rightarrow>
          if pv = JString ''source''
          then (case parse_version_metadata fromisoformat u of
                  Inl e \<Rightarrow> Inl e
                | Inr vm \<Rightarrow> Inr (Some vm))
          else scan_urls fromisoformat urls)"

text \<open>\<^verbatim>\<open>"Homepage" in project_urls\<close> and \<^verbatim>\<open>str(project_urls["Homepage"])\<close>.\<close>

definition optional_url :: "json \<Rightarrow> string \<Rightarrow> error + string" where
  "optional_url project_urls key =
     (case project_urls of
        JObject kv \<Rightarrow>
          if map_of kv key \<noteq> None then get_string project_urls key else Inr []
      | _ \<Rightarrow> Inl PreconditionViolated)"

text \<open>\<^verbatim>\<open>_parse_package_info(data)\<close>\<close>

definition parse_package_info ::
  "(string \<Rightarrow> datetime option) \<Rightarrow> json \<Rightarrow> error + PackageInfo" where
  "parse_package_info fromisoformat data =
     and_then (get_member data ''urls'') (\<lambda>urls.
     and_then (case urls of
                 JArray us \<Rightarrow> scan_urls fromisoformat us
               | _ \<Rightarrow> Inl PreconditionViolated) (\<lambda>version_metadata.
     case version_metadata of
       None \<Rightarrow> Inl (ApiException_init ''Source artifacts are not provided!'')
     | Some vm \<Rightarrow>
     and_then (get_member data ''info'') (\<lambda>info'.
     and_then (get_member info' ''project_urls'') (\<lambda>project_urls.
     and_then (optional_url project_urls ''Homepage'') (\<lambda>homepage_url'.
     and_then (optional_url project_urls ''Source'') (\<lambda>source_url'.
     and_then (get_string_or_empty info' ''description'') (\<lambda>description'.
     and_then (get_string_or_empty info' ''description_content_type'') (\<lambda>content_type'.
     and_then (get_string_or_empty info' ''docs_url'') (\<lambda>docs_url'.
     and_then (get_string info' ''license'') (\<lambda>license'.
     and_then (get_string info' ''name'') (\<lambda>name'.
     and_then (get_string info' ''package_url'') (\<lambda>package_url'.
     and_then (get_string info' ''project_url'') (\<lambda>project_url'.
     and_then (get_string info' ''release_url'') (\<lambda>release_url'.
     and_then (get_string info' ''requires_python'') (\<lambda>requires_python'.
     and_then (get_string_or_empty info' ''summary'') (\<lambda>summary'.
     and_then (get_string info' ''version'') (\<lambda>version'.
       let parsed = \<lparr>description = description',
                     description_content_type = content_type',
                     docs_url = docs_url', license = license', name = name',
                     package_url = package_url', project_url = project_url',
                     homepage_url = homepage_url', source_url = source_url',
                     release_url = release_url', requires_python = requires_python',
                     summary = summary', version = version', source_metadata = vm\<rparr>
       in
       and_then (check_for_empty_field ''PackageInfo.license'' (Some (license parsed))) (\<lambda>_.
       and_then (check_for_empty_field ''PackageInfo.name'' (Some (name parsed))) (\<lambda>_.
       and_then (check_for_empty_field ''PackageInfo.package_url''
                   (Some (package_url parsed))) (\<lambda>_.
       and_then (check_for_empty_field ''PackageInfo.project_url''
                   (Some (project_url parsed))) (\<lambda>_.
       and_then (check_for_empty_field ''PackageInfo.release_url''
                   (Some (release_url parsed))) (\<lambda>_.
       and_then (check_for_empty_field ''PackageInfo.version'' (Some (version parsed))) (\<lambda>_.
       Inr parsed)))))))))))))))))))))))"

subsection \<open>Release selection\<close>

text \<open>
  \<^verbatim>\<open>s.find(sub)\<close>: the lowest index at which \<open>sub\<close> occurs in \<open>s\<close>, and \<open>-1\<close> when it
  does not occur.
\<close>

fun str_find :: "string \<Rightarrow> string \<Rightarrow> int" where
  "str_find [] sub = (if sub = [] then 0 else - 1)"
| "str_find (c # s) sub =
     (if prefix sub (c # s) then 0
      else (let r = str_find s sub in if r < 0 then - 1 else r + 1))"

text \<open>
  The inner loop of \<^verbatim>\<open>fetch_package_metadata\<close> over the artifacts of one release: every
  entry whose \<^verbatim>\<open>python_version\<close> is \<^verbatim>\<open>"source"\<close> is parsed and appended.
\<close>

fun collect_source_artifacts ::
  "(string \<Rightarrow> datetime option) \<Rightarrow> json list \<Rightarrow> error + VersionMetadata list" where
  "collect_source_artifacts fromisoformat [] = Inr []"
| "collect_source_artifacts fromisoformat (artifact # artifacts) =
     (case get_member artifact ''python_version'' of
        Inl e \<Rightarrow> Inl e
      | Inr pv \<Rightarrow>
          if pv = JString ''source''
          then (case parse_version_metadata fromisoformat artifact of
                  Inl e \<Rightarrow> Inl e
                | Inr vm \<Rightarrow>
                    (case collect_source_artifacts fromisoformat artifacts of
                       Inl e \<Rightarrow> Inl e
                     | Inr vms \<Rightarrow> Inr (vm # vms)))
          else collect_source_artifacts fromisoformat artifacts)"

text \<open>
  \<^verbatim>\<open>for rel_artifact in release_artifacts: if rel_artifact.filename.find(".tar"): ... break\<close>:
  the first artifact for which the \<^verbatim>\<open>if\<close> takes the number \<^verbatim>\<open>find\<close> returns as true,
  that is, as another number than 0; \<open>None\<close> when the loop reaches its \<^verbatim>\<open>else\<close>.
\<close>

fun first_tar :: "VersionMetadata list \<Rightarrow> VersionMetadata option" where
  "first_tar [] = None"
| "first_tar (rel_artifact # rest) =
     (if str_find (filename rel_artifact) ''.tar'' \<noteq> 0 then Some rel_artifact
      else first_tar rest)"

text \<open>
  The value stored under \<^verbatim>\<open>releases[version]\<close> for the collected
  \<^verbatim>\<open>release_artifacts\<close>, or the exception of the empty case.
\<close>

definition select_release_artifact :: "VersionMetadata list \<Rightarrow> error + VersionMetadata" where
  "select_release_artifact release_artifacts =
     (if length release_artifacts = 0
      then Inl (ApiException_init ''API did not return any source artifacts.'')
      else if length release_artifacts = 1 then Inr (release_artifacts ! 0)
      else (case first_tar release_artifacts of
              Some rel_artifact \<Rightarrow> Inr rel_artifact
            | None \<Rightarrow> Inr (release_artifacts ! 0)))"

text \<open>
  \<^verbatim>\<open>for version, artifacts in rel_json.items()\<close>, with the \<^verbatim>\<open>releases\<close> dictionary as
  the state of the loop.
\<close>

fun scan_releases ::
  "(string \<Rightarrow> datetime option) \<Rightarrow> (string \<times> json) list \<Rightarrow>
   (string \<times> VersionMetadata) list \<Rightarrow> error + (string \<times> VersionMetadata) list" where
  "scan_releases fromisoformat [] rels = Inr rels"
| "scan_releases fromisoformat ((ver, artifacts) # rest) rels =
     (case artifacts of
        JArray arts \<Rightarrow>
          (case collect_source_artifacts fromisoformat arts of
             Inl e \<Rightarrow> Inl e
           | Inr release_artifacts \<Rightarrow>
               (case select_release_artifact release_artifacts of
                  Inl e \<Rightarrow> Inl e
                | Inr chosen \<Rightarrow>
                    scan_releases fromisoformat rest (AList.update ver chosen rels)))
      | _ \<Rightarrow> Inl PreconditionViolated)"

subsection \<open>Requests\<close>

text \<open>
  What the model sees of a \<^verbatim>\<open>requests\<close> response: the status code, the
  \<^verbatim>\<open>content-type\<close> header (\<open>None\<close> when the header is absent) and the outcome of
  \<^verbatim>\<open>response.json()\<close> (\<open>None\<close> when it raises). \<^verbatim>\<open>requests.get\<close> is the parameter
  \<open>http_get\<close> of the functions below, \<open>None\<close> where it raises.
\<close>

record http_response =
  status_code :: int
  content_type :: "string option"
  json_body :: "json option"

definition BASE_URL :: string where
  "BASE_URL = ''https://pypi.python.org/pypi''"

definition calc_package_metadata_url :: "string \<Rightarrow> string" where
  "calc_package_metadata_url package = BASE_URL @ ''/'' @ package @ ''/json''"

definition calc_package_version_metadata_url :: "string \<Rightarrow> string \<Rightarrow> string" where
  "calc_package_version_metadata_url package ver =
     BASE_URL @ ''/'' @ package @ ''/'' @ ver @ ''/json''"

text \<open>\<^verbatim>\<open>str(n)\<close> of an int, for the status code in a message.\<close>

fun show_nat :: "nat \<Rightarrow> string" where
  "show_nat n =
     (if n < 10 then [char_of (48 + n)]
      else show_nat (n div 10) @ [char_of (48 + n mod 10)])"

definition show_int :: "int \<Rightarrow> string" where
  "show_int i = (if i < 0 then ''-'' @ show_nat (nat (- i)) else show_nat (nat i))"

text \<open>
  \<^verbatim>\<open>_make_request_and_validate(endpoint, schema)\<close>. The guard against a response that
  is \<^verbatim>\<open>None\<close> cannot be reached (the source says so) and has no branch here.
\<close>

definition make_request_and_validate ::
  "(string \<Rightarrow> http_response option) \<Rightarrow> string \<Rightarrow> (json \<Rightarrow> bool) \<Rightarrow> error + json" where
  "make_request_and_validate http_get endpoint schema =
     (case http_get endpoint of
        None \<Rightarrow> Inl (ApiException_init ''GET request failed.'')
      | Some response \<Rightarrow>
          if status_code response \<noteq> 200
          then Inl (ApiException_init
                      (''API returned a '' @ show_int (status_code response) @
                       '' HTTP status code''))
          else (case content_type response of
                  None \<Rightarrow> Inl (ApiException_init
                                 ''API returned with no `content-type` header.'')
                | Some ct \<Rightarrow>
                    if ct \<noteq> ''application/json''
                    then Inl (ApiException_init
                                (''API returned a non-JSON `content-type`: '' @ ct))
                    else (case json_body response of
                            None \<Rightarrow> Inl (ApiException_init ''Failed to parse JSON response.'')
                          | Some response_json \<Rightarrow>
                              if \<not> schema response_json
                              then Inl (ApiException_init
                                          ''Returned JSON does not match minimum schema.'')
                              else Inr response_json)))"

subsection \<open>The two fetches\<close>

text \<open>\<^verbatim>\<open>fetch_package_metadata(package)\<close>\<close>

definition fetch_package_metadata ::
  "(string \<Rightarrow> http_response option) \<Rightarrow> (string \<Rightarrow> datetime option) \<Rightarrow> string \<Rightarrow>
   error + PackageMetadata" where
  "fetch_package_metadata http_get fromisoformat package =
     and_then (make_request_and_validate http_get (calc_package_metadata_url package)
                 (PackageInfo_get_schema True)) (\<lambda>response_json.
     and_then (parse_package_info fromisoformat response_json) (\<lambda>info'.
     and_then (case obj_get response_json ''releases'' of
                 Some (JObject rel_json) \<Rightarrow>
                   scan_releases fromisoformat rel_json
                     [(version info', source_metadata info')]
               | _ \<Rightarrow> Inl PreconditionViolated) (\<lambda>rels.
     if length rels = 0
     then Inl (ApiException_init ''API did not return any source information.'')
     else Inr \<lparr>info = info', releases = rels\<rparr>)))"

text \<open>\<^verbatim>\<open>fetch_package_version_metadata(package, version)\<close>\<close>

definition fetch_package_version_metadata ::
  "(string \<Rightarrow> http_response option) \<Rightarrow> (string \<Rightarrow> datetime option) \<Rightarrow> string \<Rightarrow> string \<Rightarrow>
   error + PackageMetadata" where
  "fetch_package_version_metadata http_get fromisoformat package ver =
     and_then (make_request_and_validate http_get
                 (calc_package_version_metadata_url package ver)
                 (PackageInfo_get_schema False)) (\<lambda>response_json.
     and_then (parse_package_info fromisoformat response_json) (\<lambda>info'.
     Inr \<lparr>info = info', releases = [(version info', source_metadata info')]\<rparr>))"

subsection \<open>Concrete runs\<close>

text \<open>
  The theorems below hold for every \<open>fromisoformat\<close> and every \<open>http_get\<close>. To run the
  functions on a concrete response the two parameters need values.
  \<open>fromisoformat_seconds\<close> reads the timestamps of the shape \<^verbatim>\<open>YYYY-MM-DDTHH:MM:SS\<close>,
  which Python's \<^verbatim>\<open>fromisoformat\<close> reads to the same fields, and no other string;
  \<open>serve j\<close> answers every request with status 200, the JSON content type and the
  body \<open>j\<close>.
\<close>

definition is_digit :: "char \<Rightarrow> bool" where
  "is_digit c = (c \<in> set ''0123456789'')"

fun digits_value :: "string \<Rightarrow> nat \<Rightarrow> nat option" where
  "digits_value [] acc = Some acc"
| "digits_value (c # cs) acc =
     (if is_digit c then digits_value cs (10 * acc + (of_char c - 48)) else None)"

definition days_in_month :: "nat \<Rightarrow> nat \<Rightarrow> nat" where
  "days_in_month y m =
     (if m = 2 then (if y mod 4 = 0 \<and> (y mod 100 \<noteq> 0 \<or> y mod 400 = 0) then 29 else 28)
      else if m \<in> {4, 6, 9, 11} then 30 else 31)"

definition fromisoformat_seconds :: "string \<Rightarrow> datetime option" where
  "fromisoformat_seconds s =
     (if length s = 19 \<and> s ! 4 = CHR ''-'' \<and> s ! 7 = CHR ''-'' \<and> s ! 10 = CHR ''T'' \<and>
         s ! 13 = CHR '':'' \<and> s ! 16 = CHR '':''
      then
        (case (digits_value (take 4 s) 0, digits_value (take 2 (drop 5 s)) 0,
               digits_value (take 2 (drop 8 s)) 0, digits_value (take 2 (drop 11 s)) 0,
               digits_value (take 2 (drop 14 s)) 0, digits_value (take 2 (drop 17 s)) 0) of
           (Some y, Some mo, Some d, Some h, Some mi, Some se) \<Rightarrow>
             if 1 \<le> y \<and> 1 \<le> mo \<and> mo \<le> 12 \<and> 1 \<le> d \<and> d \<le> days_in_month y mo \<and>
                h < 24 \<and> mi < 60 \<and> se < 60
             then Some (Datetime y mo d h mi se 0 None)
             else None
         | _ \<Rightarrow> None)
      else None)"

definition serve :: "json \<Rightarrow> string \<Rightarrow> http_response option" where
  "serve j endpoint =
     Some \<lparr>status_code = 200, content_type = Some ''application/json'', json_body = Some j\<rparr>"

text \<open>
  An artifact object as the index lists it under \<^verbatim>\<open>urls\<close> and \<^verbatim>\<open>releases\<close>, with the
  given file name, \<^verbatim>\<open>python_version\<close>, MD5 digest and upload time.
\<close>

definition example_md5 :: string where
  "example_md5 = ''0123456789abcdef0123456789abcdef''"

definition example_sha256 :: string where
  "example_sha256 = ''0123456789abcdef0123456789abcdef0123456789abcdef0123456789abcdef''"

definition example_artifact :: "string \<Rightarrow> string \<Rightarrow> string \<Rightarrow> string \<Rightarrow> json" where
  "example_artifact fname pyver digest ts =
     JObject
       [(''digests'', JObject [(''md5'', JString digest), (''sha256'', JString example_sha256)]),
        (''filename'', JString fname),
        (''python_version'', JString pyver),
        (''size'', JInt 2048),
        (''upload_time_iso_8601'', JString ts),
        (''url'', JString (''https://files.pythonhosted.org/packages/'' @ fname))]"

text \<open>What parsing makes of \<open>example_artifact fname pyver example_md5 ''2023-05-22T15:12:44''\<close>.\<close>

definition example_metadata :: "string \<Rightarrow> string \<Rightarrow> VersionMetadata" where
  "example_metadata fname pyver =
     \<lparr>md5 = example_md5, sha256 = example_sha256, filename = fname, python_version = pyver,
      size_v = 2048, upload_time = Datetime 2023 5 22 15 12 44 0 None,
      url = ''https://files.pythonhosted.org/packages/'' @ fname\<rparr>"

text \<open>
  A response for the package \<^verbatim>\<open>pkg\<close> at version 1.0: its \<^verbatim>\<open>info\<close> object with the given
  \<^verbatim>\<open>project_urls\<close>, and the response with the given \<^verbatim>\<open>urls\<close> and \<^verbatim>\<open>releases\<close>.
\<close>

definition example_info_json :: "(string \<times> json) list \<Rightarrow> json" where
  "example_info_json project_urls =
     JObject
       [(''description'', JNull),
        (''description_content_type'', JNull),
        (''docs_url'', JNull),
        (''license'', JString ''MIT''),
        (''name'', JString ''pkg''),
        (''package_url'', JString ''https://pypi.org/project/pkg/''),
        (''project_url'', JString ''https://pypi.org/project/pkg/''),
        (''project_urls'', JObject project_urls),
        (''release_url'', JString ''https://pypi.org/project/pkg/1.0/''),
        (''requires_python'', JString ''>=3.8''),
        (''summary'', JString ''A package''),
        (''version'', JString ''1.0'')]"

definition example_response ::
  "(string \<times> json) list \<Rightarrow> json list \<Rightarrow> (string \<times> json) list \<Rightarrow> json" where
  "example_response project_urls urls rels =
     JObject
       [(''info'', example_info_json project_urls),
        (''releases'', JObject rels),
        (''urls'', JArray urls)]"

text \<open>
  What parsing makes of that \<^verbatim>\<open>info\<close> object, given the two optional URLs and the source
  metadata.
\<close>

definition example_info :: "string \<Rightarrow> string \<Rightarrow> VersionMetadata \<Rightarrow> PackageInfo" where
  "example_info home src vm =
     \<lparr>description = '''', description_content_type = '''', docs_url = '''',
      license = ''MIT'', name = ''pkg'',
      package_url = ''https://pypi.org/project/pkg/'',
      project_url = ''https://pypi.org/project/pkg/'',
      homepage_url = home, source_url = src,
      release_url = ''https://pypi.org/project/pkg/1.0/'',
      requires_python = ''>=3.8'', summary = ''A package'', version = ''1.0'',
      source_metadata = vm\<rparr>"

subsection \<open>Notions of the specification\<close>

text \<open>
  A source artifact: an entry of \<^verbatim>\<open>urls\<close> or of a release whose \<^verbatim>\<open>python_version\<close> is
  the string \<^verbatim>\<open>"source"\<close>, the test both loops of the source make.
\<close>

definition is_source_artifact :: "json \<Rightarrow> bool" where
  "is_source_artifact a = (obj_get a ''python_version'' = Some (JString ''source''))"

text \<open>
  The artifact the scan of \<^verbatim>\<open>releases\<close> selects for the array \<open>a\<close> of one release:
  what one round of the loop stores under \<^verbatim>\<open>releases[version]\<close>, or raises.
\<close>

definition selected_artifact ::
  "(string \<Rightarrow> datetime option) \<Rightarrow> json \<Rightarrow> error + VersionMetadata" where
  "selected_artifact fromisoformat a =
     (case a of
        JArray arts \<Rightarrow>
          (case collect_source_artifacts fromisoformat arts of
             Inl e \<Rightarrow> Inl e
           | Inr release_artifacts \<Rightarrow> select_release_artifact release_artifacts)
      | _ \<Rightarrow> Inl PreconditionViolated)"

text \<open>A message names a field when the field's name occurs in it (\<^verbatim>\<open>w in msg\<close>).\<close>

definition mentions :: "string \<Rightarrow> string \<Rightarrow> bool" where
  "mentions msg w = (0 \<le> str_find msg w)"

text \<open>
  What the specification promises of every \<open>VersionMetadata\<close> a fetch returns: it is
  tagged \<^verbatim>\<open>"source"\<close>, its hashes passed the format checks and are 32 and 64 hex digits,
  and its file name is not empty.
\<close>

definition valid_source_metadata :: "VersionMetadata \<Rightarrow> bool" where
  "valid_source_metadata vm =
     (python_version vm = ''source'' \<and>
      is_valid_md5 (md5 vm) \<and> is_hex_string 32 (md5 vm) \<and>
      is_valid_sha256 (sha256 vm) \<and> is_hex_string 64 (sha256 vm) \<and>
      filename vm \<noteq> [])"

section \<open>Lemmas\<close>

subsection \<open>Schema-valid JSON has the fields the parser reads\<close>

lemma type_in_object: "type_in [T_object] j \<longleftrightarrow> (\<exists>kv. j = JObject kv)"
  by (cases j) (simp_all add: type_in_def)

lemma type_in_array: "type_in [T_array] j \<longleftrightarrow> (\<exists>xs. j = JArray xs)"
  by (cases j) (simp_all add: type_in_def)

lemma type_in_string: "type_in [T_string] j \<longleftrightarrow> (\<exists>s. j = JString s)"
  by (cases j) (simp_all add: type_in_def)

lemma type_in_integer: "type_in [T_integer] j \<longleftrightarrow> (\<exists>i. j = JInt i)"
  by (cases j) (simp_all add: type_in_def)

lemma type_in_string_null: "type_in [T_string, T_null] j \<longleftrightarrow> (j = JNull \<or> (\<exists>s. j = JString s))"
  by (cases j) (simp_all add: type_in_def)

lemma digests_schema_fields:
  assumes "digests_schema dg"
  shows "\<exists>m s. get_string dg ''md5'' = Inr m \<and> get_string dg ''sha256'' = Inr s"
  using assms
  by (auto simp: digests_schema_def type_in_object required_def properties_def
      type_in_string get_string_def obj_get_def)

lemma VersionMetadata_schema_fields:
  assumes "VersionMetadata_get_schema d"
  shows "\<exists>ts sz dg m s fn pv u.
           get_string d ''upload_time_iso_8601'' = Inr ts \<and>
           get_int d ''size'' = Inr sz \<and>
           get_member d ''digests'' = Inr dg \<and>
           get_string dg ''md5'' = Inr m \<and>
           get_string dg ''sha256'' = Inr s \<and>
           get_string d ''filename'' = Inr fn \<and>
           get_string d ''python_version'' = Inr pv \<and>
           get_string d ''url'' = Inr u"
proof -
  from assms obtain kv where d: "d = JObject kv"
    by (auto simp: VersionMetadata_get_schema_def type_in_object)
  from assms d obtain dg where dg: "map_of kv ''digests'' = Some dg" "digests_schema dg"
    by (auto simp: VersionMetadata_get_schema_def required_def properties_def)
  from assms d obtain ts where ts: "map_of kv ''upload_time_iso_8601'' = Some (JString ts)"
    by (auto simp: VersionMetadata_get_schema_def required_def properties_def type_in_string)
  from assms d obtain sz where sz: "map_of kv ''size'' = Some (JInt sz)"
    by (auto simp: VersionMetadata_get_schema_def required_def properties_def type_in_integer)
  from assms d obtain fn where fn: "map_of kv ''filename'' = Some (JString fn)"
    by (auto simp: VersionMetadata_get_schema_def required_def properties_def type_in_string)
  from assms d obtain pv where pv: "map_of kv ''python_version'' = Some (JString pv)"
    by (auto simp: VersionMetadata_get_schema_def required_def properties_def type_in_string)
  from assms d obtain u where u: "map_of kv ''url'' = Some (JString u)"
    by (auto simp: VersionMetadata_get_schema_def required_def properties_def type_in_string)
  from digests_schema_fields [OF dg(2)] obtain m s where
    ms: "get_string dg ''md5'' = Inr m" "get_string dg ''sha256'' = Inr s" by blast
  show ?thesis
    using d dg(1) ts sz fn pv u ms
    by (simp add: get_string_def get_int_def get_member_def obj_get_def)
qed

lemma get_string_or_empty_string:
  "get_string d k = Inr s \<Longrightarrow> get_string_or_empty d k = Inr s"
  by (auto simp: get_string_def get_string_or_empty_def split: option.splits json.splits)

lemma ApiException_init_nonempty: "msg \<noteq> [] \<Longrightarrow> ApiException_init msg = ApiException msg"
  by (simp add: ApiException_init_def)

text \<open>The outcome of parsing in closed form.\<close>

lemma parse_version_metadata_fields:
  assumes "get_string d ''upload_time_iso_8601'' = Inr ts"
    and "get_int d ''size'' = Inr sz"
    and "get_member d ''digests'' = Inr dg"
    and "get_string dg ''md5'' = Inr m"
    and "get_string dg ''sha256'' = Inr s"
    and "get_string d ''filename'' = Inr fn"
    and "get_string d ''python_version'' = Inr pv"
    and "get_string d ''url'' = Inr u"
  shows "parse_version_metadata f d =
           (case f ts of
              None \<Rightarrow> Inl (ApiException (''Failed to convert timestamp: '' @ ts))
            | Some t \<Rightarrow>
                if \<not> is_valid_md5 m
                then Inl (ApiException (''VersionMetadata MD5 hash is invalid: '' @ m))
                else if \<not> is_valid_sha256 s
                then Inl (ApiException (''VersionMetadata SHA-256 hash is invalid: '' @ m))
                else if fn = []
                then Inl (ApiException ''`VersionMetadata.filename` field is empty: '')
                else if pv = []
                then Inl (ApiException ''`VersionMetadata.python_version` field is empty: '')
                else Inr \<lparr>md5 = m, sha256 = s, filename = fn, python_version = pv,
                          size_v = sz, upload_time = t, url = u\<rparr>)"
  using assms get_string_or_empty_string [OF assms(8)]
  by (simp add: parse_version_metadata_def and_then_def check_for_empty_field_def
      ApiException_init_def split: option.splits)

subsection \<open>Hash formats and the concrete inputs\<close>

lemma lower_hex_digit_is_hex_digit: "is_lower_hex_digit c \<Longrightarrow> is_hex_digit c"
  unfolding is_lower_hex_digit_def is_hex_digit_def by (elim rev_subsetD) simp

lemma list_all_hex_digit: "list_all is_lower_hex_digit s \<Longrightarrow> list_all is_hex_digit s"
  by (induction s) (simp_all add: lower_hex_digit_is_hex_digit)

lemma is_valid_md5_hex: "is_valid_md5 s \<Longrightarrow> is_hex_string 32 s"
  by (simp add: is_valid_md5_def is_hex_string_def list_all_hex_digit)

lemma is_valid_sha256_hex: "is_valid_sha256 s \<Longrightarrow> is_hex_string 64 s"
  by (simp add: is_valid_sha256_def is_hex_string_def list_all_hex_digit)

lemma example_md5_valid: "is_valid_md5 example_md5"
  by (simp add: is_valid_md5_def example_md5_def is_lower_hex_digit_def)

lemma example_sha256_valid: "is_valid_sha256 example_sha256"
  by (simp add: is_valid_sha256_def example_sha256_def is_lower_hex_digit_def)

lemma example_artifact_schema: "VersionMetadata_get_schema (example_artifact fn pv m ts)"
  by (simp add: VersionMetadata_get_schema_def example_artifact_def digests_schema_def
      type_in_def required_def properties_def)

lemma example_artifact_fields:
  "get_string (example_artifact fn pv m ts) ''upload_time_iso_8601'' = Inr ts"
  "get_int (example_artifact fn pv m ts) ''size'' = Inr 2048"
  "get_member (example_artifact fn pv m ts) ''digests'' =
     Inr (JObject [(''md5'', JString m), (''sha256'', JString example_sha256)])"
  "get_string (JObject [(''md5'', JString m), (''sha256'', JString example_sha256)]) ''md5'' = Inr m"
  "get_string (JObject [(''md5'', JString m), (''sha256'', JString example_sha256)]) ''sha256'' =
     Inr example_sha256"
  "get_string (example_artifact fn pv m ts) ''filename'' = Inr fn"
  "get_string (example_artifact fn pv m ts) ''python_version'' = Inr pv"
  "get_string (example_artifact fn pv m ts) ''url'' =
     Inr (''https://files.pythonhosted.org/packages/'' @ fn)"
  by (simp_all add: example_artifact_def get_string_def get_int_def get_member_def obj_get_def)

lemma fromisoformat_seconds_example:
  "fromisoformat_seconds ''2023-05-22T15:12:44'' = Some (Datetime 2023 5 22 15 12 44 0 None)"
  by (simp add: fromisoformat_seconds_def is_digit_def days_in_month_def)

lemma fromisoformat_seconds_not_a_date: "fromisoformat_seconds ''not-a-date'' = None"
  by (simp add: fromisoformat_seconds_def)


lemma not_hex_xyz: "\<not> is_hex_string 32 ''xyz''"
  by (simp add: is_hex_string_def)

lemma mentions_MD5: "mentions (''VersionMetadata MD5 hash is invalid: '' @ m) ''MD5''"
  by (simp add: mentions_def Let_def)

lemma mentions_SHA: "mentions (''VersionMetadata SHA-256 hash is invalid: '' @ m) ''SHA-256''"
  by (simp add: mentions_def Let_def)

lemma mentions_filename: "mentions ''`VersionMetadata.filename` field is empty: '' ''filename''"
  by (simp add: mentions_def Let_def)

lemma mentions_python_version:
  "mentions ''`VersionMetadata.python_version` field is empty: '' ''python_version''"
  by (simp add: mentions_def Let_def)

subsection \<open>Package info parsing on schema-valid responses\<close>

lemma project_urls_schema_optional:
  assumes "project_urls_schema (JObject pu)" and "k = ''Homepage'' \<or> k = ''Source''"
  obtains h where "optional_url (JObject pu) k = Inr h"
    and "map_of pu k = None \<longrightarrow> h = []"
    and "map_of pu k \<noteq> None \<longrightarrow> map_of pu k = Some (JString h)"
proof -
  have "\<exists>h. optional_url (JObject pu) k = Inr h \<and>
           (map_of pu k = None \<longrightarrow> h = []) \<and>
           (map_of pu k \<noteq> None \<longrightarrow> map_of pu k = Some (JString h))"
    using assms
    by (auto simp: project_urls_schema_def properties_def type_in_string
        optional_url_def get_string_def obj_get_def)
  then show thesis
    by (elim exE conjE) (rule that)
qed

lemma schema_member:
  assumes "required ks (JObject kv)" and "properties ps (JObject kv)"
    and "k \<in> set ks" and "(k, sch) \<in> set ps"
  shows "\<exists>v. map_of kv k = Some v \<and> sch v"
proof -
  from assms(1,3) obtain v where v: "map_of kv k = Some v"
    by (auto simp: required_def list_all_iff)
  from assms(2,4) have "case map_of kv k of None \<Rightarrow> True | Some v \<Rightarrow> sch v"
    by (auto simp: properties_def list_all_iff)
  with v show ?thesis by simp
qed

lemma info_schema_fields:
  assumes "info_schema ij"
  obtains d dc du l n pk pr pus ru rp sm v where
    "get_string_or_empty ij ''description'' = Inr d" and
    "get_string_or_empty ij ''description_content_type'' = Inr dc" and
    "get_string_or_empty ij ''docs_url'' = Inr du" and
    "get_string ij ''license'' = Inr l" and
    "get_string ij ''name'' = Inr n" and
    "get_string ij ''package_url'' = Inr pk" and
    "get_string ij ''project_url'' = Inr pr" and
    "get_member ij ''project_urls'' = Inr pus" and
    "project_urls_schema pus" and
    "get_string ij ''release_url'' = Inr ru" and
    "get_string ij ''requires_python'' = Inr rp" and
    "get_string_or_empty ij ''summary'' = Inr sm" and
    "get_string ij ''version'' = Inr v"
proof -
  from assms obtain kv where ij: "ij = JObject kv"
    by (auto simp: info_schema_def type_in_object)
  note req = assms [unfolded info_schema_def ij, THEN conjunct2, THEN conjunct1]
  note props = assms [unfolded info_schema_def ij, THEN conjunct2, THEN conjunct2]
  have str: "\<exists>s. get_string ij k = Inr s"
    if "\<exists>v. map_of kv k = Some v \<and> type_in [T_string] v" for k
    using that ij by (auto simp: type_in_string get_string_def obj_get_def)
  have nul: "\<exists>s. get_string_or_empty ij k = Inr s"
    if "\<exists>v. map_of kv k = Some v \<and> type_in [T_string, T_null] v" for k
    using that ij by (auto simp: type_in_string_null get_string_or_empty_def obj_get_def)
  obtain d where d: "get_string_or_empty ij ''description'' = Inr d"
    using nul [OF schema_member [OF req props]] by force
  obtain dc where dc: "get_string_or_empty ij ''description_content_type'' = Inr dc"
    using nul [OF schema_member [OF req props]] by force
  obtain du where du: "get_string_or_empty ij ''docs_url'' = Inr du"
    using nul [OF schema_member [OF req props]] by force
  obtain sm where sm: "get_string_or_empty ij ''summary'' = Inr sm"
    using nul [OF schema_member [OF req props]] by force
  obtain l where l: "get_string ij ''license'' = Inr l"
    using str [OF schema_member [OF req props]] by force
  obtain n where n: "get_string ij ''name'' = Inr n"
    using str [OF schema_member [OF req props]] by force
  obtain pk where pk: "get_string ij ''package_url'' = Inr pk"
    using str [OF schema_member [OF req props]] by force
  obtain pr where pr: "get_string ij ''project_url'' = Inr pr"
    using str [OF schema_member [OF req props]] by force
  obtain ru where ru: "get_string ij ''release_url'' = Inr ru"
    using str [OF schema_member [OF req props]] by force
  obtain rp where rp: "get_string ij ''requires_python'' = Inr rp"
    using str [OF schema_member [OF req props]] by force
  obtain v where v: "get_string ij ''version'' = Inr v"
    using str [OF schema_member [OF req props]] by force
  obtain pus where pus: "map_of kv ''project_urls'' = Some pus" "project_urls_schema pus"
    using schema_member [OF req props, of "''project_urls''" project_urls_schema] by auto
  have gp: "get_member ij ''project_urls'' = Inr pus"
    using pus(1) ij by (simp add: get_member_def obj_get_def)
  show thesis by (rule that [OF d dc du l n pk pr gp pus(2) ru rp sm v])
qed

lemma PackageInfo_schema_parts:
  assumes "PackageInfo_get_schema rr data"
  shows "\<exists>us ij. obj_get data ''urls'' = Some (JArray us) \<and>
           list_all VersionMetadata_get_schema us \<and>
           get_member data ''info'' = Inr ij \<and> info_schema ij"
  using assms
  by (auto simp: PackageInfo_get_schema_def type_in_object required_def properties_def
      urls_schema_def type_in_array items_def get_member_def obj_get_def)

lemma releases_schema_items:
  assumes "releases_schema (JObject rel)" and "(k, a) \<in> set rel"
  shows "\<exists>arts. a = JArray arts \<and> list_all VersionMetadata_get_schema arts"
proof -
  from assms have "type_in [T_array] a \<and> items VersionMetadata_get_schema a"
    by (auto simp: releases_schema_def patternProperties_def any_version_key_def list_all_iff)
  then show ?thesis
    by (auto simp: type_in_array items_def)
qed

lemma PackageInfo_schema_releases:
  assumes "PackageInfo_get_schema True data"
  shows "\<exists>rel. obj_get data ''releases'' = Some (JObject rel) \<and> releases_schema (JObject rel)"
  using assms
  by (auto simp: PackageInfo_get_schema_def type_in_object required_def properties_def
      releases_schema_def obj_get_def)

lemma schema_python_version:
  assumes "VersionMetadata_get_schema u"
  shows "\<exists>pv. obj_get u ''python_version'' = Some (JString pv) \<and>
           get_member u ''python_version'' = Inr (JString pv) \<and>
           get_string u ''python_version'' = Inr pv \<and>
           (is_source_artifact u \<longleftrightarrow> pv = ''source'')"
  using VersionMetadata_schema_fields [OF assms]
  by (auto simp: get_string_def get_member_def is_source_artifact_def
      split: option.splits json.splits)

lemma scan_urls_find:
  assumes "list_all VersionMetadata_get_schema us"
  shows "scan_urls f us =
           (case List.find is_source_artifact us of
              None \<Rightarrow> Inr None
            | Some u \<Rightarrow>
                (case parse_version_metadata f u of Inl e \<Rightarrow> Inl e | Inr vm \<Rightarrow> Inr (Some vm)))"
  using assms
proof (induction us)
  case Nil
  then show ?case by simp
next
  case (Cons u us)
  from Cons.prems have "VersionMetadata_get_schema u" by simp
  from schema_python_version [OF this] obtain pv where
    "get_member u ''python_version'' = Inr (JString pv)" "is_source_artifact u \<longleftrightarrow> pv = ''source''"
    by blast
  with Cons show ?case by simp
qed

lemma check_for_empty_field_Some:
  "check_for_empty_field fld (Some v) =
     (if v = [] then Inl (ApiException (''`'' @ fld @ ''` field is empty: '')) else Inr ())"
  by (simp add: check_for_empty_field_def ApiException_init_def)

lemma parse_package_info_fields:
  assumes "obj_get data ''urls'' = Some (JArray us)"
    and "scan_urls f us = Inr (Some vm)"
    and "get_member data ''info'' = Inr ij"
    and "get_member ij ''project_urls'' = Inr pus"
    and "optional_url pus ''Homepage'' = Inr h"
    and "optional_url pus ''Source'' = Inr sr"
    and "get_string_or_empty ij ''description'' = Inr d"
    and "get_string_or_empty ij ''description_content_type'' = Inr dc"
    and "get_string_or_empty ij ''docs_url'' = Inr du"
    and "get_string ij ''license'' = Inr l"
    and "get_string ij ''name'' = Inr n"
    and "get_string ij ''package_url'' = Inr pk"
    and "get_string ij ''project_url'' = Inr pr"
    and "get_string ij ''release_url'' = Inr ru"
    and "get_string ij ''requires_python'' = Inr rp"
    and "get_string_or_empty ij ''summary'' = Inr sm"
    and "get_string ij ''version'' = Inr v"
  shows "parse_package_info f data =
           (if l = [] then Inl (ApiException ''`PackageInfo.license` field is empty: '')
            else if n = [] then Inl (ApiException ''`PackageInfo.name` field is empty: '')
            else if pk = [] then Inl (ApiException ''`PackageInfo.package_url` field is empty: '')
            else if pr = [] then Inl (ApiException ''`PackageInfo.project_url` field is empty: '')
            else if ru = [] then Inl (ApiException ''`PackageInfo.release_url` field is empty: '')
            else if v = [] then Inl (ApiException ''`PackageInfo.version` field is empty: '')
            else Inr \<lparr>description = d, description_content_type = dc, docs_url = du,
                      license = l, name = n, package_url = pk, project_url = pr,
                      homepage_url = h, source_url = sr, release_url = ru,
                      requires_python = rp, summary = sm, version = v,
                      source_metadata = vm\<rparr>)"
  using assms
  by (simp add: parse_package_info_def and_then_def get_member_def
      check_for_empty_field_Some)

lemma parse_package_info_scan_error:
  assumes "obj_get data ''urls'' = Some (JArray us)" and "scan_urls f us = Inl e"
  shows "parse_package_info f data = Inl e"
  using assms by (simp add: parse_package_info_def and_then_def get_member_def)

lemma parse_package_info_no_source:
  assumes "obj_get data ''urls'' = Some (JArray us)" and "scan_urls f us = Inr None"
  shows "parse_package_info f data = Inl (ApiException ''Source artifacts are not provided!'')"
  using assms
  by (simp add: parse_package_info_def and_then_def get_member_def ApiException_init_def)

text \<open>On a schema-valid response, once the source artifact is parsed only an empty
  required field can fail.\<close>

lemma parse_package_info_schema:
  assumes "PackageInfo_get_schema rr data"
    and "obj_get data ''urls'' = Some (JArray us)"
    and "scan_urls f us = Inr (Some vm)"
    and "get_member data ''info'' = Inr ij"
    and "get_member ij ''project_urls'' = Inr (JObject pu)"
  obtains l n pk pr ru v h sr where
    "get_string ij ''license'' = Inr l" and "get_string ij ''name'' = Inr n" and
    "get_string ij ''package_url'' = Inr pk" and "get_string ij ''project_url'' = Inr pr" and
    "get_string ij ''release_url'' = Inr ru" and "get_string ij ''version'' = Inr v" and
    "map_of pu ''Homepage'' = None \<longrightarrow> h = []" and
    "map_of pu ''Homepage'' \<noteq> None \<longrightarrow> map_of pu ''Homepage'' = Some (JString h)" and
    "map_of pu ''Source'' = None \<longrightarrow> sr = []" and
    "map_of pu ''Source'' \<noteq> None \<longrightarrow> map_of pu ''Source'' = Some (JString sr)" and
    "l = [] \<or> n = [] \<or> pk = [] \<or> pr = [] \<or> ru = [] \<or> v = [] \<longrightarrow>
       (\<exists>msg. parse_package_info f data = Inl (ApiException msg))" and
    "l \<noteq> [] \<and> n \<noteq> [] \<and> pk \<noteq> [] \<and> pr \<noteq> [] \<and> ru \<noteq> [] \<and> v \<noteq> [] \<longrightarrow>
       (\<exists>pi. parse_package_info f data = Inr pi \<and> license pi = l \<and> name pi = n \<and>
            package_url pi = pk \<and> project_url pi = pr \<and> release_url pi = ru \<and>
            version pi = v \<and> homepage_url pi = h \<and> source_url pi = sr \<and>
            source_metadata pi = vm)"
proof -
  from PackageInfo_schema_parts [OF assms(1)] obtain ij' where
    "get_member data ''info'' = Inr ij'" "info_schema ij'" by blast
  with assms(4) have "info_schema ij" by simp
  then obtain d dc du l n pk pr pus ru rp sm v where
    "get_string_or_empty ij ''description'' = Inr d" and
    "get_string_or_empty ij ''description_content_type'' = Inr dc" and
    "get_string_or_empty ij ''docs_url'' = Inr du" and
    l: "get_string ij ''license'' = Inr l" and
    n: "get_string ij ''name'' = Inr n" and
    pk: "get_string ij ''package_url'' = Inr pk" and
    pr: "get_string ij ''project_url'' = Inr pr" and
    gp: "get_member ij ''project_urls'' = Inr pus" and
    ps: "project_urls_schema pus" and
    ru: "get_string ij ''release_url'' = Inr ru" and
    "get_string ij ''requires_python'' = Inr rp" and
    "get_string_or_empty ij ''summary'' = Inr sm" and
    v: "get_string ij ''version'' = Inr v"
    by (rule info_schema_fields)
  note flds = this
  from gp assms(5) have pus: "pus = JObject pu" by simp
  obtain h where h: "optional_url (JObject pu) ''Homepage'' = Inr h"
    "map_of pu ''Homepage'' = None \<longrightarrow> h = []"
    "map_of pu ''Homepage'' \<noteq> None \<longrightarrow> map_of pu ''Homepage'' = Some (JString h)"
    by (rule project_urls_schema_optional [OF ps [unfolded pus] disjI1 [OF refl]])
  obtain sr where sr: "optional_url (JObject pu) ''Source'' = Inr sr"
    "map_of pu ''Source'' = None \<longrightarrow> sr = []"
    "map_of pu ''Source'' \<noteq> None \<longrightarrow> map_of pu ''Source'' = Some (JString sr)"
    by (rule project_urls_schema_optional [OF ps [unfolded pus] disjI2 [OF refl]])
  note closed = parse_package_info_fields
    [OF assms(2,3,4,5) h(1) sr(1) flds(1,2,3,4,5,6,7,10,11,12,13)]
  have bad: "l = [] \<or> n = [] \<or> pk = [] \<or> pr = [] \<or> ru = [] \<or> v = [] \<longrightarrow>
       (\<exists>msg. parse_package_info f data = Inl (ApiException msg))"
    unfolding closed by simp
  have good: "l \<noteq> [] \<and> n \<noteq> [] \<and> pk \<noteq> [] \<and> pr \<noteq> [] \<and> ru \<noteq> [] \<and> v \<noteq> [] \<longrightarrow>
       (\<exists>pi. parse_package_info f data = Inr pi \<and> license pi = l \<and> name pi = n \<and>
            package_url pi = pk \<and> project_url pi = pr \<and> release_url pi = ru \<and>
            version pi = v \<and> homepage_url pi = h \<and> source_url pi = sr \<and>
            source_metadata pi = vm)"
    unfolding closed by simp
  show thesis
    by (rule that [OF l n pk pr ru v h(2,3) sr(2,3) bad good])
qed

lemma PackageInfo_schema_urls:
  assumes "PackageInfo_get_schema rr data" and "obj_get data ''urls'' = Some (JArray us)"
  shows "list_all VersionMetadata_get_schema us"
  using assms
  by (auto simp: PackageInfo_get_schema_def type_in_object required_def properties_def
      urls_schema_def items_def obj_get_def)

lemma PackageInfo_schema_info:
  assumes "PackageInfo_get_schema rr data" and "get_member data ''info'' = Inr ij"
  shows "info_schema ij"
  using assms
  by (auto simp: PackageInfo_get_schema_def type_in_object required_def properties_def
      get_member_def obj_get_def split: option.splits)

lemma PackageInfo_schema_project_urls:
  assumes "PackageInfo_get_schema rr data"
  obtains ij pu where "get_member data ''info'' = Inr ij"
    and "get_member ij ''project_urls'' = Inr (JObject pu)"
proof -
  from PackageInfo_schema_parts [OF assms] obtain ij where
    ij: "get_member data ''info'' = Inr ij" "info_schema ij" by (elim exE conjE)
  from ij(2) obtain pus where
    pus: "get_member ij ''project_urls'' = Inr pus" "project_urls_schema pus"
    by (rule info_schema_fields)
  from pus(2) obtain pu where "pus = JObject pu"
    by (auto simp: project_urls_schema_def type_in_object)
  with ij(1) pus(1) show thesis by (simp add: that)
qed

lemma parse_package_info_Inr_scan:
  assumes "PackageInfo_get_schema rr data"
    and "obj_get data ''urls'' = Some (JArray us)"
    and "parse_package_info f data = Inr pi"
  obtains vm where "scan_urls f us = Inr (Some vm)"
proof -
  let ?s = "scan_urls f us"
  show thesis
  proof (cases ?s)
    case (Inl e)
    from parse_package_info_scan_error [OF assms(2) Inl] assms(3) show thesis by simp
  next
    case (Inr r)
    show thesis
    proof (cases r)
      case None
      with Inr parse_package_info_no_source [OF assms(2), of f] assms(3) show thesis by simp
    next
      case (Some vm)
      with Inr show thesis by (simp add: that)
    qed
  qed
qed

subsection \<open>The concrete responses\<close>

lemma parse_example_artifact:
  assumes "fn \<noteq> []" and "pv \<noteq> []"
  shows "parse_version_metadata fromisoformat_seconds
           (example_artifact fn pv example_md5 ''2023-05-22T15:12:44'') =
         Inr (example_metadata fn pv)"
  using assms
  by (simp add: parse_version_metadata_fields [OF example_artifact_fields]
      fromisoformat_seconds_example example_md5_valid example_sha256_valid
      example_metadata_def)

lemma example_artifact_is_source:
  "is_source_artifact (example_artifact fn pv m ts) \<longleftrightarrow> pv = ''source''"
  by (simp add: is_source_artifact_def example_artifact_def obj_get_def)

lemma example_response_members:
  "obj_get (example_response pu urls rels) ''urls'' = Some (JArray urls)"
  "obj_get (example_response pu urls rels) ''releases'' = Some (JObject rels)"
  "get_member (example_response pu urls rels) ''info'' = Inr (example_info_json pu)"
  "get_member (example_info_json pu) ''project_urls'' = Inr (JObject pu)"
  by (simp_all add: example_response_def example_info_json_def get_member_def obj_get_def)

lemma example_info_json_schema:
  assumes "project_urls_schema (JObject pu)"
  shows "info_schema (example_info_json pu)"
  using assms
  by (simp add: info_schema_def example_info_json_def type_in_def required_def properties_def)

lemma example_response_schema:
  assumes "project_urls_schema (JObject pu)"
    and "list_all VersionMetadata_get_schema urls"
    and "releases_schema (JObject rels)"
  shows "PackageInfo_get_schema rr (example_response pu urls rels)"
  using assms example_info_json_schema [OF assms(1)]
  by (simp add: PackageInfo_get_schema_def example_response_def type_in_def required_def
      properties_def urls_schema_def items_def)

lemma project_urls_schema_examples:
  "project_urls_schema (JObject [])"
  "project_urls_schema (JObject [(''Homepage'', JString h)])"
  by (simp_all add: project_urls_schema_def type_in_def properties_def)

lemma releases_schema_examples:
  "releases_schema (JObject [])"
  "list_all VersionMetadata_get_schema arts \<Longrightarrow> releases_schema (JObject [(k, JArray arts)])"
  by (simp_all add: releases_schema_def type_in_def patternProperties_def
      no_additionalProperties_def any_version_key_def items_def)

lemma example_info_json_fields:
  "get_string (example_info_json pu) ''license'' = Inr ''MIT''"
  "get_string (example_info_json pu) ''name'' = Inr ''pkg''"
  "get_string (example_info_json pu) ''package_url'' = Inr ''https://pypi.org/project/pkg/''"
  "get_string (example_info_json pu) ''project_url'' = Inr ''https://pypi.org/project/pkg/''"
  "get_string (example_info_json pu) ''release_url'' = Inr ''https://pypi.org/project/pkg/1.0/''"
  "get_string (example_info_json pu) ''version'' = Inr ''1.0''"
  by (simp_all add: example_info_json_def get_string_def obj_get_def)

lemma parse_example_response_wheel_sdist:
  "parse_package_info fromisoformat_seconds
     (example_response []
        [example_artifact ''pkg-1.0-py3-none-any.whl'' ''py3'' example_md5 ''2023-05-22T15:12:44'',
         example_artifact ''pkg-1.0.tar.gz'' ''source'' example_md5 ''2023-05-22T15:12:44''] []) =
   Inr (example_info [] [] (example_metadata ''pkg-1.0.tar.gz'' ''source''))"
  by code_simp

lemma parse_example_response_wheel_only:
  "parse_package_info fromisoformat_seconds
     (example_response []
        [example_artifact ''pkg-1.0-py3-none-any.whl'' ''py3'' example_md5 ''2023-05-22T15:12:44'']
        []) =
   Inl (ApiException ''Source artifacts are not provided!'')"
  by code_simp

lemma parse_example_response_homepage:
  "parse_package_info fromisoformat_seconds
     (example_response [(''Homepage'', JString ''https://example.org/pkg'')]
        [example_artifact ''pkg-1.0.tar.gz'' ''source'' example_md5 ''2023-05-22T15:12:44''] []) =
   Inr (example_info ''https://example.org/pkg'' [] (example_metadata ''pkg-1.0.tar.gz'' ''source''))"
  by code_simp

subsection \<open>Requests\<close>

lemma make_request_and_validate_Inr:
  assumes "make_request_and_validate http_get endpoint sch = Inr j"
  shows "sch j" and "\<exists>r. http_get endpoint = Some r \<and> json_body r = Some j"
  using assms
  by (auto simp: make_request_and_validate_def split: option.splits if_splits)

lemma make_request_and_validate_Inl:
  assumes "make_request_and_validate http_get endpoint sch = Inl e"
  shows "\<exists>msg. e = ApiException msg"
  using assms
  by (auto simp: make_request_and_validate_def ApiException_init_def
      split: option.splits if_splits)

lemma make_request_and_validate_serve:
  assumes "sch j"
  shows "make_request_and_validate (serve j) endpoint sch = Inr j"
  using assms by (simp add: make_request_and_validate_def serve_def)

subsection \<open>What a parsed artifact satisfies\<close>

lemma parse_version_metadata_Inr:
  assumes "VersionMetadata_get_schema d" and "parse_version_metadata f d = Inr vm"
  shows "is_valid_md5 (md5 vm)" and "is_valid_sha256 (sha256 vm)" and "filename vm \<noteq> []"
    and "get_string d ''python_version'' = Inr (python_version vm)"
proof -
  from VersionMetadata_schema_fields [OF assms(1)]
  obtain ts sz dg m s fn pv u where flds:
    "get_string d ''upload_time_iso_8601'' = Inr ts"
    "get_int d ''size'' = Inr sz"
    "get_member d ''digests'' = Inr dg"
    "get_string dg ''md5'' = Inr m"
    "get_string dg ''sha256'' = Inr s"
    "get_string d ''filename'' = Inr fn"
    "get_string d ''python_version'' = Inr pv"
    "get_string d ''url'' = Inr u"
    by (elim exE conjE)
  note closed = parse_version_metadata_fields [OF flds, of f]
  from assms(2) have all: "is_valid_md5 (md5 vm) \<and> is_valid_sha256 (sha256 vm) \<and>
      filename vm \<noteq> [] \<and> python_version vm = pv"
    unfolding closed by (auto split: option.splits if_splits)
  from all show "is_valid_md5 (md5 vm)" by simp
  from all show "is_valid_sha256 (sha256 vm)" by simp
  from all show "filename vm \<noteq> []" by simp
  from all flds(7) show "get_string d ''python_version'' = Inr (python_version vm)" by simp
qed

lemma parse_version_metadata_Inl:
  assumes "VersionMetadata_get_schema d" and "parse_version_metadata f d = Inl e"
  shows "\<exists>msg. e = ApiException msg"
proof -
  from VersionMetadata_schema_fields [OF assms(1)]
  obtain ts sz dg m s fn pv u where flds:
    "get_string d ''upload_time_iso_8601'' = Inr ts"
    "get_int d ''size'' = Inr sz"
    "get_member d ''digests'' = Inr dg"
    "get_string dg ''md5'' = Inr m"
    "get_string dg ''sha256'' = Inr s"
    "get_string d ''filename'' = Inr fn"
    "get_string d ''python_version'' = Inr pv"
    "get_string d ''url'' = Inr u"
    by (elim exE conjE)
  note closed = parse_version_metadata_fields [OF flds, of f]
  from assms(2) show ?thesis
    unfolding closed by (auto split: option.splits if_splits)
qed

lemma parse_source_artifact_valid:
  assumes "VersionMetadata_get_schema d" and "is_source_artifact d"
    and "parse_version_metadata f d = Inr vm"
  shows "valid_source_metadata vm"
proof -
  from schema_python_version [OF assms(1)] assms(2)
  have "get_string d ''python_version'' = Inr ''source''" by auto
  with parse_version_metadata_Inr [OF assms(1,3)] is_valid_md5_hex is_valid_sha256_hex
  show ?thesis by (simp add: valid_source_metadata_def)
qed

subsection \<open>The artifacts of one release\<close>

lemma collect_source_artifacts_Inr:
  assumes "list_all VersionMetadata_get_schema arts"
    and "collect_source_artifacts f arts = Inr vms"
  shows "list_all2 (\<lambda>a vm. parse_version_metadata f a = Inr vm)
           (filter is_source_artifact arts) vms"
  using assms
proof (induction arts arbitrary: vms)
  case Nil
  then show ?case by simp
next
  case (Cons a arts)
  from Cons.prems(1) have a: "VersionMetadata_get_schema a" by simp
  from schema_python_version [OF a] obtain pv where
    pv: "get_member a ''python_version'' = Inr (JString pv)"
      "is_source_artifact a \<longleftrightarrow> pv = ''source''"
    by (elim exE conjE)
  from Cons show ?case
    by (auto simp: pv split: sum.splits)
qed

lemma collect_source_artifacts_Inl:
  assumes "list_all VersionMetadata_get_schema arts"
    and "collect_source_artifacts f arts = Inl e"
  shows "\<exists>a \<in> set arts. is_source_artifact a \<and> parse_version_metadata f a = Inl e"
  using assms
proof (induction arts)
  case Nil
  then show ?case by simp
next
  case (Cons a arts)
  from Cons.prems(1) have a: "VersionMetadata_get_schema a" by simp
  from schema_python_version [OF a] obtain pv where
    pv: "get_member a ''python_version'' = Inr (JString pv)"
      "is_source_artifact a \<longleftrightarrow> pv = ''source''"
    by (elim exE conjE)
  from Cons show ?case
    by (auto simp: pv split: sum.splits if_splits)
qed

lemma collect_source_artifacts_valid:
  assumes "list_all VersionMetadata_get_schema arts"
    and "collect_source_artifacts f arts = Inr vms"
  shows "list_all valid_source_metadata vms"
proof -
  have "list_all valid_source_metadata vms"
    if "list_all2 (\<lambda>a vm. parse_version_metadata f a = Inr vm) xs vms"
      and "list_all VersionMetadata_get_schema xs" and "list_all is_source_artifact xs"
    for xs
    using that
    by (induction xs vms rule: list_all2_induct) (auto intro: parse_source_artifact_valid)
  from this [OF collect_source_artifacts_Inr [OF assms]] assms(1)
  show ?thesis by (simp add: list_all_iff)
qed

lemma collect_source_artifacts_none:
  assumes "list_all VersionMetadata_get_schema arts"
    and "filter is_source_artifact arts = []"
  shows "collect_source_artifacts f arts = Inr []"
  using assms
proof (induction arts)
  case Nil
  then show ?case by simp
next
  case (Cons a arts)
  from Cons.prems(1) have a: "VersionMetadata_get_schema a" by simp
  from schema_python_version [OF a] obtain pv where
    pv: "get_member a ''python_version'' = Inr (JString pv)"
      "is_source_artifact a \<longleftrightarrow> pv = ''source''"
    by (elim exE conjE)
  from Cons show ?case
    by (auto simp: pv split: if_splits)
qed

lemma collect_source_artifacts_ok:
  assumes "list_all VersionMetadata_get_schema arts"
    and "\<forall>a \<in> set arts. is_source_artifact a \<longrightarrow> (\<exists>vm. parse_version_metadata f a = Inr vm)"
  shows "\<exists>vms. collect_source_artifacts f arts = Inr vms"
proof -
  let ?c = "collect_source_artifacts f arts"
  show ?thesis
  proof (cases ?c)
    case (Inl e)
    from collect_source_artifacts_Inl [OF assms(1) Inl] assms(2) show ?thesis by auto
  next
    case (Inr vms)
    then show ?thesis by simp
  qed
qed

subsection \<open>The selection among the source artifacts of a release\<close>

lemma first_tar_Some: "first_tar ras = Some r \<Longrightarrow> r \<in> set ras"
  by (induction ras) (auto split: if_splits)

lemma select_release_artifact_Nil:
  "select_release_artifact [] = Inl (ApiException ''API did not return any source artifacts.'')"
  by (simp add: select_release_artifact_def ApiException_init_def)

lemma select_release_artifact_Inr:
  assumes "select_release_artifact ras = Inr c"
  shows "c \<in> set ras"
proof (cases ras)
  case Nil
  with assms show ?thesis by (simp add: select_release_artifact_def)
next
  case (Cons r rs)
  with assms first_tar_Some [of ras c] show ?thesis
    by (auto simp: select_release_artifact_def split: if_splits option.splits)
qed

lemma select_release_artifact_Inl:
  assumes "select_release_artifact ras = Inl e"
  shows "ras = [] \<and> e = ApiException ''API did not return any source artifacts.''"
  using assms
  by (cases ras)
    (auto simp: select_release_artifact_def ApiException_init_def
      split: if_splits option.splits)

subsection \<open>The scan of the releases\<close>

lemma scan_releases_Cons:
  "scan_releases f ((ver, a) # rest) rels =
     (case selected_artifact f a of
        Inl e \<Rightarrow> Inl e
      | Inr c \<Rightarrow> scan_releases f rest (AList.update ver c rels))"
  by (cases a) (simp_all add: selected_artifact_def split: sum.splits)

declare scan_releases.simps(2) [simp del]

lemma releases_schema_Cons:
  assumes "releases_schema (JObject ((ver, a) # rest))"
  shows "releases_schema (JObject rest)"
    and "\<exists>arts. a = JArray arts \<and> list_all VersionMetadata_get_schema arts"
  using assms
  by (auto simp: releases_schema_def type_in_object type_in_array patternProperties_def
      no_additionalProperties_def any_version_key_def items_def)

lemma selected_artifact_Inr:
  assumes "list_all VersionMetadata_get_schema arts"
    and "selected_artifact f (JArray arts) = Inr c"
  shows "valid_source_metadata c"
    and "\<exists>ras. collect_source_artifacts f arts = Inr ras \<and> c \<in> set ras"
proof -
  from assms(2) obtain ras where ras: "collect_source_artifacts f arts = Inr ras"
    "select_release_artifact ras = Inr c"
    by (auto simp: selected_artifact_def split: sum.splits)
  from select_release_artifact_Inr [OF ras(2)] have c: "c \<in> set ras" .
  with collect_source_artifacts_valid [OF assms(1) ras(1)]
  show "valid_source_metadata c" by (simp add: list_all_iff)
  from ras(1) c show "\<exists>ras. collect_source_artifacts f arts = Inr ras \<and> c \<in> set ras"
    by simp
qed

lemma selected_artifact_Inl:
  assumes "list_all VersionMetadata_get_schema arts"
    and "selected_artifact f (JArray arts) = Inl e"
  shows "\<exists>msg. e = ApiException msg"
proof -
  let ?c = "collect_source_artifacts f arts"
  show ?thesis
  proof (cases ?c)
    case (Inl e')
    with assms(2) have "e' = e" by (simp add: selected_artifact_def)
    with collect_source_artifacts_Inl [OF assms(1) Inl] obtain a where
      "a \<in> set arts" "parse_version_metadata f a = Inl e" by auto
    with assms(1) parse_version_metadata_Inl [of a f e] show ?thesis
      by (simp add: list_all_iff)
  next
    case (Inr ras)
    with assms(2) have "select_release_artifact ras = Inl e"
      by (simp add: selected_artifact_def)
    from select_release_artifact_Inl [OF this] show ?thesis by simp
  qed
qed

lemma selected_artifact_no_source:
  assumes "list_all VersionMetadata_get_schema arts"
    and "filter is_source_artifact arts = []"
  shows "selected_artifact f (JArray arts) =
           Inl (ApiException ''API did not return any source artifacts.'')"
  by (simp add: selected_artifact_def collect_source_artifacts_none [OF assms]
      select_release_artifact_Nil)

lemma selected_artifact_all_parse:
  assumes "list_all VersionMetadata_get_schema arts"
    and "\<forall>x \<in> set arts. is_source_artifact x \<longrightarrow> (\<exists>vm. parse_version_metadata f x = Inr vm)"
    and "selected_artifact f (JArray arts) = Inl e"
  shows "e = ApiException ''API did not return any source artifacts.''"
proof -
  from collect_source_artifacts_ok [OF assms(1,2)] obtain ras where
    "collect_source_artifacts f arts = Inr ras" by (elim exE)
  with assms(3) have "select_release_artifact ras = Inl e"
    by (simp add: selected_artifact_def)
  from select_release_artifact_Inl [OF this] show ?thesis by simp
qed

lemma set_update_cases:
  "(k', v') \<in> set (AList.update k v al) \<Longrightarrow> (k', v') = (k, v) \<or> (k', v') \<in> set al"
  by (induction al) (auto split: if_splits)

lemma scan_releases_valid:
  assumes "releases_schema (JObject rel)"
    and "scan_releases f rel seed = Inr rels"
    and "\<forall>(k, v) \<in> set seed. valid_source_metadata v"
  shows "\<forall>(k, v) \<in> set rels. valid_source_metadata v"
  using assms
proof (induction rel arbitrary: seed)
  case Nil
  then show ?case by simp
next
  case (Cons x rest)
  obtain ver a where x: "x = (ver, a)" by (cases x)
  from releases_schema_Cons [OF Cons.prems(1) [unfolded x]] obtain arts where
    rest: "releases_schema (JObject rest)" and a: "a = JArray arts"
    and arts: "list_all VersionMetadata_get_schema arts" by auto
  from Cons.prems(2) obtain c where c: "selected_artifact f a = Inr c"
    and sc: "scan_releases f rest (AList.update ver c seed) = Inr rels"
    by (auto simp: x scan_releases_Cons split: sum.splits)
  from selected_artifact_Inr(1) [OF arts c [unfolded a]] Cons.prems(3)
  have "\<forall>(k, v) \<in> set (AList.update ver c seed). valid_source_metadata v"
    by (auto dest: set_update_cases)
  from Cons.IH [OF rest sc this] show ?case .
qed

lemma scan_releases_map:
  assumes "distinct (map fst rel)"
    and "scan_releases f rel seed = Inr rels"
  shows "(\<forall>(ver, a) \<in> set rel. \<exists>c. selected_artifact f a = Inr c \<and> map_of rels ver = Some c) \<and>
         (\<forall>k. k \<notin> fst ` set rel \<longrightarrow> map_of rels k = map_of seed k) \<and>
         fst ` set rels = fst ` set seed \<union> fst ` set rel \<and>
         (distinct (map fst seed) \<longrightarrow> distinct (map fst rels))"
  using assms
proof (induction rel arbitrary: seed)
  case Nil
  then show ?case by simp
next
  case (Cons x rest)
  obtain ver a where x: "x = (ver, a)" by (cases x)
  from Cons.prems(1) have d: "distinct (map fst rest)" and nin: "ver \<notin> fst ` set rest"
    by (simp_all add: x)
  from Cons.prems(2) obtain c where c: "selected_artifact f a = Inr c"
    and sc: "scan_releases f rest (AList.update ver c seed) = Inr rels"
    by (auto simp: x scan_releases_Cons split: sum.splits)
  note IH = Cons.IH [OF d sc]
  from IH nin have head: "map_of rels ver = Some c"
    by (simp add: update_conv')
  from IH have others: "\<forall>k. k \<notin> fst ` set (x # rest) \<longrightarrow> map_of rels k = map_of seed k"
    by (simp add: x update_conv')
  from IH have keys: "fst ` set rels = fst ` set seed \<union> fst ` set (x # rest)"
    by (auto simp: x dom_update)
  from IH have dist: "distinct (map fst seed) \<longrightarrow> distinct (map fst rels)"
    by (simp add: distinct_update)
  from IH c head have "\<forall>(ver, a) \<in> set (x # rest).
      \<exists>c. selected_artifact f a = Inr c \<and> map_of rels ver = Some c"
    by (simp add: x)
  with others keys dist show ?case by simp
qed

lemma scan_releases_fails:
  assumes "releases_schema (JObject rel)"
    and "(ver, JArray arts) \<in> set rel" and "filter is_source_artifact arts = []"
  shows "\<exists>msg. scan_releases f rel seed = Inl (ApiException msg)"
  using assms(1,2)
proof (induction rel arbitrary: seed)
  case Nil
  then show ?case by simp
next
  case (Cons x rest)
  obtain v a where x: "x = (v, a)" by (cases x)
  from releases_schema_Cons [OF Cons.prems(1) [unfolded x]] obtain arts' where
    rest: "releases_schema (JObject rest)" and a: "a = JArray arts'"
    and arts': "list_all VersionMetadata_get_schema arts'" by auto
  let ?s = "selected_artifact f a"
  show ?case
  proof (cases ?s)
    case (Inl e)
    with selected_artifact_Inl [OF arts', of f e] show ?thesis
      by (auto simp: x a scan_releases_Cons)
  next
    case (Inr c)
    have "(ver, JArray arts) \<noteq> x"
    proof
      assume "(ver, JArray arts) = x"
      with x a have "arts' = arts" by simp
      with selected_artifact_no_source [OF arts', of f] assms(3) Inr a show False by simp
    qed
    with Cons.prems(2) have "(ver, JArray arts) \<in> set rest" by auto
    from Cons.IH [OF rest this] Inr show ?thesis
      by (simp add: x scan_releases_Cons)
  qed
qed

lemma scan_releases_fails_at:
  assumes "releases_schema (JObject (pre @ (ver, JArray arts) # post))"
    and "filter is_source_artifact arts = []"
    and "\<forall>(v, a) \<in> set pre. \<forall>arts'. a = JArray arts' \<longrightarrow>
           (\<forall>x \<in> set arts'. is_source_artifact x \<longrightarrow> (\<exists>vm. parse_version_metadata f x = Inr vm))"
  shows "scan_releases f (pre @ (ver, JArray arts) # post) seed =
           Inl (ApiException ''API did not return any source artifacts.'')"
  using assms(1,3)
proof (induction pre arbitrary: seed)
  case Nil
  from releases_schema_Cons(2) [OF Nil.prems(1) [simplified]]
  have "list_all VersionMetadata_get_schema arts" by simp
  from selected_artifact_no_source [OF this assms(2), of f] show ?case
    by (simp add: scan_releases_Cons)
next
  case (Cons x pre)
  obtain v a where x: "x = (v, a)" by (cases x)
  from Cons.prems(1) have sch: "releases_schema (JObject ((v, a) # pre @ (ver, JArray arts) # post))"
    by (simp add: x)
  from releases_schema_Cons [OF sch] obtain arts' where
    rest: "releases_schema (JObject (pre @ (ver, JArray arts) # post))" and a: "a = JArray arts'"
    and arts': "list_all VersionMetadata_get_schema arts'" by auto
  from Cons.prems(2) have
    ok: "\<forall>y \<in> set arts'. is_source_artifact y \<longrightarrow> (\<exists>vm. parse_version_metadata f y = Inr vm)"
    and ok_rest: "\<forall>(v, a) \<in> set pre. \<forall>arts'. a = JArray arts' \<longrightarrow>
           (\<forall>x \<in> set arts'. is_source_artifact x \<longrightarrow> (\<exists>vm. parse_version_metadata f x = Inr vm))"
    by (simp_all add: x a)
  let ?s = "selected_artifact f a"
  show ?case
  proof (cases ?s)
    case (Inl e)
    with selected_artifact_all_parse [OF arts' ok, of e] a show ?thesis
      by (simp add: x scan_releases_Cons)
  next
    case (Inr c)
    with Cons.IH [OF rest ok_rest] show ?thesis
      by (simp add: x scan_releases_Cons)
  qed
qed

subsection \<open>The fetches\<close>

lemma parse_package_info_Inl:
  assumes "PackageInfo_get_schema rr data" and "parse_package_info f data = Inl e"
  shows "\<exists>msg. e = ApiException msg"
proof -
  from PackageInfo_schema_parts [OF assms(1)] obtain us where
    us: "obj_get data ''urls'' = Some (JArray us)" "list_all VersionMetadata_get_schema us"
    by (elim exE conjE)
  note scan = scan_urls_find [OF us(2), of f]
  let ?s = "scan_urls f us"
  show ?thesis
  proof (cases ?s)
    case (Inl e')
    from parse_package_info_scan_error [OF us(1) Inl] assms(2) have e: "e' = e" by simp
    from Inl scan obtain u where u: "List.find is_source_artifact us = Some u"
      "parse_version_metadata f u = Inl e'"
      by (auto split: option.splits sum.splits)
    from u(1) have "u \<in> set us" by (auto simp: find_Some_iff)
    with us(2) have "VersionMetadata_get_schema u" by (simp add: list_all_iff)
    from parse_version_metadata_Inl [OF this u(2)] e show ?thesis by simp
  next
    case (Inr r)
    show ?thesis
    proof (cases r)
      case None
      with Inr parse_package_info_no_source [OF us(1), of f] assms(2) show ?thesis by simp
    next
      case (Some vm)
      with Inr have sc: "scan_urls f us = Inr (Some vm)" by simp
      obtain ij pu where ij: "get_member data ''info'' = Inr ij"
        "get_member ij ''project_urls'' = Inr (JObject pu)"
        by (rule PackageInfo_schema_project_urls [OF assms(1)])
      obtain l n pk pr ru v h sr where
        bad: "l = [] \<or> n = [] \<or> pk = [] \<or> pr = [] \<or> ru = [] \<or> v = [] \<longrightarrow>
           (\<exists>msg. parse_package_info f data = Inl (ApiException msg))" and
        good: "l \<noteq> [] \<and> n \<noteq> [] \<and> pk \<noteq> [] \<and> pr \<noteq> [] \<and> ru \<noteq> [] \<and> v \<noteq> [] \<longrightarrow>
           (\<exists>pi. parse_package_info f data = Inr pi \<and> license pi = l \<and> name pi = n \<and>
              package_url pi = pk \<and> project_url pi = pr \<and> release_url pi = ru \<and>
              version pi = v \<and> homepage_url pi = h \<and> source_url pi = sr \<and>
              source_metadata pi = vm)"
        by (rule parse_package_info_schema [OF assms(1) us(1) sc ij])
      from good assms(2) have "l = [] \<or> n = [] \<or> pk = [] \<or> pr = [] \<or> ru = [] \<or> v = []"
        by auto
      with bad assms(2) show ?thesis by auto
    qed
  qed
qed

lemma parse_package_info_source:
  assumes "PackageInfo_get_schema rr data" and "parse_package_info f data = Inr pi"
  shows "\<exists>us u. obj_get data ''urls'' = Some (JArray us) \<and>
           List.find is_source_artifact us = Some u \<and> VersionMetadata_get_schema u \<and>
           is_source_artifact u \<and>
           parse_version_metadata f u = Inr (source_metadata pi)"
proof -
  from PackageInfo_schema_parts [OF assms(1)] obtain us where
    us: "obj_get data ''urls'' = Some (JArray us)" "list_all VersionMetadata_get_schema us"
    by (elim exE conjE)
  obtain vm where sc: "scan_urls f us = Inr (Some vm)"
    by (rule parse_package_info_Inr_scan [OF assms(1) us(1) assms(2)])
  with scan_urls_find [OF us(2), of f] obtain u where
    u: "List.find is_source_artifact us = Some u" "parse_version_metadata f u = Inr vm"
    by (auto split: option.splits sum.splits)
  from u(1) have mem: "u \<in> set us" "is_source_artifact u" by (auto simp: find_Some_iff)
  with us(2) have schema: "VersionMetadata_get_schema u" by (simp add: list_all_iff)
  obtain ij pu where ij: "get_member data ''info'' = Inr ij"
    "get_member ij ''project_urls'' = Inr (JObject pu)"
    by (rule PackageInfo_schema_project_urls [OF assms(1)])
  obtain l n pk pr ru v h sr where
    bad: "l = [] \<or> n = [] \<or> pk = [] \<or> pr = [] \<or> ru = [] \<or> v = [] \<longrightarrow>
       (\<exists>msg. parse_package_info f data = Inl (ApiException msg))" and
    good: "l \<noteq> [] \<and> n \<noteq> [] \<and> pk \<noteq> [] \<and> pr \<noteq> [] \<and> ru \<noteq> [] \<and> v \<noteq> [] \<longrightarrow>
       (\<exists>pi. parse_package_info f data = Inr pi \<and> license pi = l \<and> name pi = n \<and>
          package_url pi = pk \<and> project_url pi = pr \<and> release_url pi = ru \<and>
          version pi = v \<and> homepage_url pi = h \<and> source_url pi = sr \<and>
          source_metadata pi = vm)"
    by (rule parse_package_info_schema [OF assms(1) us(1) sc ij])
  from bad assms(2) have "l \<noteq> [] \<and> n \<noteq> [] \<and> pk \<noteq> [] \<and> pr \<noteq> [] \<and> ru \<noteq> [] \<and> v \<noteq> []"
    by auto
  with good assms(2) have "source_metadata pi = vm" by auto
  with us(1) u mem(2) schema show ?thesis by simp
qed

lemma parse_package_info_cong:
  assumes "obj_get d' ''urls'' = obj_get d ''urls''"
    and "obj_get d' ''info'' = obj_get d ''info''"
  shows "parse_package_info f d' = parse_package_info f d"
proof -
  have a: "get_member d' ''urls'' = get_member d ''urls''"
    and b: "get_member d' ''info'' = get_member d ''info''"
    using assms by (simp_all add: get_member_def)
  show ?thesis
    unfolding parse_package_info_def a b by (rule refl)
qed

lemma fetch_package_metadata_Inr:
  assumes "fetch_package_metadata http_get f package = Inr pm"
  obtains data rel where
    "make_request_and_validate http_get (calc_package_metadata_url package)
       (PackageInfo_get_schema True) = Inr data"
    and "parse_package_info f data = Inr (info pm)"
    and "obj_get data ''releases'' = Some (JObject rel)"
    and "scan_releases f rel [(version (info pm), source_metadata (info pm))] =
           Inr (releases pm)"
  using assms
  by (auto simp: fetch_package_metadata_def and_then_def
      split: sum.splits option.splits json.splits if_splits)

lemma fetch_package_metadata_scan:
  assumes "make_request_and_validate http_get (calc_package_metadata_url package)
             (PackageInfo_get_schema True) = Inr data"
    and "parse_package_info f data = Inr pi"
    and "obj_get data ''releases'' = Some (JObject rel)"
  shows "fetch_package_metadata http_get f package =
           (case scan_releases f rel [(version pi, source_metadata pi)] of
              Inl e \<Rightarrow> Inl e
            | Inr rels \<Rightarrow>
                if rels = []
                then Inl (ApiException ''API did not return any source information.'')
                else Inr \<lparr>info = pi, releases = rels\<rparr>)"
  using assms
  by (simp add: fetch_package_metadata_def and_then_def ApiException_init_def
      split: sum.splits)

lemma fetch_package_version_metadata_Inr:
  assumes "fetch_package_version_metadata http_get f package ver = Inr pm"
  obtains data where
    "make_request_and_validate http_get (calc_package_version_metadata_url package ver)
       (PackageInfo_get_schema False) = Inr data"
    and "parse_package_info f data = Inr (info pm)"
    and "releases pm = [(version (info pm), source_metadata (info pm))]"
  using assms
  by (auto simp: fetch_package_version_metadata_def and_then_def split: sum.splits)

lemma fetch_package_metadata_info_error:
  assumes "make_request_and_validate http_get (calc_package_metadata_url package)
             (PackageInfo_get_schema True) = Inr data"
    and "parse_package_info f data = Inl e"
  shows "fetch_package_metadata http_get f package = Inl e"
  using assms by (simp add: fetch_package_metadata_def and_then_def)

lemma PackageInfo_schema_releases_of:
  assumes "PackageInfo_get_schema True data"
    and "obj_get data ''releases'' = Some (JObject rel)"
  shows "releases_schema (JObject rel)"
  using PackageInfo_schema_releases [OF assms(1)] assms(2) by auto

subsection \<open>Concrete fetches\<close>

lemma example_response_full_schema:
  assumes "list_all VersionMetadata_get_schema urls"
    and "list_all (\<lambda>(k, a). type_in [T_array] a \<and> items VersionMetadata_get_schema a) rels"
  shows "PackageInfo_get_schema rr (example_response [] urls rels)"
  using assms
  by (intro example_response_schema project_urls_schema_examples)
    (simp_all add: releases_schema_def type_in_def patternProperties_def
      no_additionalProperties_def any_version_key_def list_all_iff)

lemma fetch_example_zip_tar:
  "fetch_package_metadata
     (serve (example_response []
        [example_artifact ''pkg-1.0.tar.gz'' ''source'' example_md5 ''2023-05-22T15:12:44'']
        [(''1.0'', JArray
           [example_artifact ''pkg-1.0.zip'' ''source'' example_md5 ''2023-05-22T15:12:44'',
            example_artifact ''pkg-1.0.tar.gz'' ''source'' example_md5
              ''2023-05-22T15:12:44''])]))
     fromisoformat_seconds ''pkg'' =
   Inr \<lparr>info = example_info [] [] (example_metadata ''pkg-1.0.tar.gz'' ''source''),
        releases = [(''1.0'', example_metadata ''pkg-1.0.zip'' ''source'')]\<rparr>"
  by code_simp

lemma fetch_example_two_releases:
  "fetch_package_metadata
     (serve (example_response []
        [example_artifact ''pkg-1.0.zip'' ''source'' example_md5 ''2023-05-22T15:12:44'']
        [(''0.9'', JArray
           [example_artifact ''pkg-0.9.tar.gz'' ''source'' example_md5 ''2023-05-22T15:12:44'']),
         (''1.0'', JArray
           [example_artifact ''pkg-1.0-py3-none-any.whl'' ''py3'' example_md5
              ''2023-05-22T15:12:44'',
            example_artifact ''pkg-1.0.tar.gz'' ''source'' example_md5
              ''2023-05-22T15:12:44''])]))
     fromisoformat_seconds ''pkg'' =
   Inr \<lparr>info = example_info [] [] (example_metadata ''pkg-1.0.zip'' ''source''),
        releases = [(''1.0'', example_metadata ''pkg-1.0.tar.gz'' ''source''),
                    (''0.9'', example_metadata ''pkg-0.9.tar.gz'' ''source'')]\<rparr>"
  by code_simp

lemma fetch_example_bad_md5_then_wheel_only:
  "fetch_package_metadata
     (serve (example_response []
        [example_artifact ''pkg-1.0.tar.gz'' ''source'' example_md5 ''2023-05-22T15:12:44'']
        [(''0.9'', JArray
           [example_artifact ''pkg-0.9.tar.gz'' ''source'' ''xyz'' ''2023-05-22T15:12:44'']),
         (''1.0'', JArray
           [example_artifact ''pkg-1.0-py3-none-any.whl'' ''py3'' example_md5
              ''2023-05-22T15:12:44''])]))
     fromisoformat_seconds ''pkg'' =
   Inl (ApiException ''VersionMetadata MD5 hash is invalid: xyz'')"
  by code_simp

lemma fetch_example_wheel_only_then_bad_md5:
  "fetch_package_metadata
     (serve (example_response []
        [example_artifact ''pkg-1.0.tar.gz'' ''source'' example_md5 ''2023-05-22T15:12:44'']
        [(''1.0'', JArray
           [example_artifact ''pkg-1.0-py3-none-any.whl'' ''py3'' example_md5
              ''2023-05-22T15:12:44'']),
         (''0.9'', JArray
           [example_artifact ''pkg-0.9.tar.gz'' ''source'' ''xyz'' ''2023-05-22T15:12:44''])]))
     fromisoformat_seconds ''pkg'' =
   Inl (ApiException ''API did not return any source artifacts.'')"
  by code_simp

lemma fetch_version_example:
  "fetch_package_version_metadata
     (serve (example_response []
        [example_artifact ''pkg-1.0-py3-none-any.whl'' ''py3'' example_md5
           ''2023-05-22T15:12:44'',
         example_artifact ''pkg-1.0.tar.gz'' ''source'' example_md5 ''2023-05-22T15:12:44'']
        [(''1.0'', JArray
           [example_artifact ''pkg-1.0-py3-none-any.whl'' ''py3'' example_md5
              ''2023-05-22T15:12:44''])]))
     fromisoformat_seconds ''pkg'' ''1.0'' =
   Inr \<lparr>info = example_info [] [] (example_metadata ''pkg-1.0.tar.gz'' ''source''),
        releases = [(''1.0'', example_metadata ''pkg-1.0.tar.gz'' ''source'')]\<rparr>"
  by code_simp

lemma str_find_zip: "str_find ''pkg-1.0.zip'' ''.tar'' = - 1"
  by code_simp

lemma str_find_tar: "str_find ''pkg-1.0.tar.gz'' ''.tar'' = 7"
  by code_simp

section \<open>The claims\<close>

subsection \<open>C8: the message of an ApiException\<close>

text \<open>
  C8. For every string passed to the \<^verbatim>\<open>ApiException\<close> constructor: an empty string is
  replaced by the generic message \<^verbatim>\<open>An unknown API issue was encountered.\<close>, any other
  string is carried unchanged, and the message carried is never empty.
\<close>

theorem ApiException_init_message:
  "(message = [] \<longrightarrow>
      ApiException_init message = ApiException ''An unknown API issue was encountered.'') \<and>
   (message \<noteq> [] \<longrightarrow> ApiException_init message = ApiException message) \<and>
   (\<exists>m. ApiException_init message = ApiException m \<and> m \<noteq> [])"
  by (simp add: ApiException_init_def)

theorem ApiException_init_message_witness:
  "ApiException_init [] = ApiException ''An unknown API issue was encountered.'' \<and>
   ApiException_init ''GET request failed.'' = ApiException ''GET request failed.''"
  using ApiException_init_message [of "[]"] ApiException_init_message [of "''GET request failed.''"]
  by simp

subsection \<open>C2: parsing an artifact returns its fields\<close>

text \<open>
  As C2 is stated, a schema-valid artifact with a 32-digit MD5 and a 64-digit SHA-256
  always parses. The schema asks only for strings: the artifact below is schema-valid
  and has both hashes in order, its \<^verbatim>\<open>filename\<close> is the empty string, and
  \<^verbatim>\<open>_check_for_empty_field\<close> rejects it.
\<close>

theorem parse_version_metadata_empty_filename_fails:
  "VersionMetadata_get_schema
     (example_artifact [] ''source'' example_md5 ''2023-05-22T15:12:44'') \<and>
   is_hex_string 32 example_md5 \<and> is_hex_string 64 example_sha256 \<and>
   parse_version_metadata fromisoformat_seconds
     (example_artifact [] ''source'' example_md5 ''2023-05-22T15:12:44'') =
   Inl (ApiException ''`VersionMetadata.filename` field is empty: '')"
  by (simp add: example_artifact_schema is_valid_md5_hex is_valid_sha256_hex
      example_md5_valid example_sha256_valid
      parse_version_metadata_fields [OF example_artifact_fields]
      fromisoformat_seconds_example)

text \<open>
  C2, amended. For every schema-valid artifact whose \<^verbatim>\<open>digests.md5\<close> and
  \<^verbatim>\<open>digests.sha256\<close> pass the hash format checks, whose \<^verbatim>\<open>upload_time_iso_8601\<close> the
  timestamp parser reads, and whose \<^verbatim>\<open>filename\<close> and \<^verbatim>\<open>python_version\<close> are not empty,
  \<^verbatim>\<open>_parse_version_metadata\<close> returns a record: its md5, sha256, filename,
  python_version, size and url are the input's fields, and its upload_time is the
  timestamp read.
\<close>

theorem parse_version_metadata_round_trip:
  assumes "VersionMetadata_get_schema d"
    and "get_member d ''digests'' = Inr dg"
    and "get_string dg ''md5'' = Inr m"
    and "get_string dg ''sha256'' = Inr s"
    and "get_string d ''filename'' = Inr fn"
    and "get_string d ''python_version'' = Inr pv"
    and "get_int d ''size'' = Inr sz"
    and "get_string d ''upload_time_iso_8601'' = Inr ts"
    and "get_string d ''url'' = Inr u"
    and "is_valid_md5 m" and "is_valid_sha256 s"
    and "fromisoformat ts = Some t"
    and "fn \<noteq> []" and "pv \<noteq> []"
  shows "parse_version_metadata fromisoformat d =
           Inr \<lparr>md5 = m, sha256 = s, filename = fn, python_version = pv,
                size_v = sz, upload_time = t, url = u\<rparr>"
  using assms(10-14)
  by (simp add: parse_version_metadata_fields [OF assms(8,7,2,3,4,5,6,9)])

theorem parse_version_metadata_round_trip_witness:
  "parse_version_metadata fromisoformat_seconds
     (example_artifact ''pkg-1.0.tar.gz'' ''source'' example_md5 ''2023-05-22T15:12:44'') =
   Inr (example_metadata ''pkg-1.0.tar.gz'' ''source'')"
  using parse_version_metadata_round_trip
    [where fromisoformat = fromisoformat_seconds,
     OF example_artifact_schema example_artifact_fields(3,4,5,6,7,2,1,8)
        example_md5_valid example_sha256_valid fromisoformat_seconds_example,
     of "''pkg-1.0.tar.gz''" "''source''"]
  by (simp add: example_metadata_def)

subsection \<open>C6: what an artifact is rejected for\<close>

text \<open>
  As C6 is stated, the message of the error names the hash or the empty field. The
  timestamp is parsed before the record is built: the artifact below is schema-valid, its
  MD5 is not 32 hex digits, and the error is the one of its timestamp, which names
  neither the MD5 nor any digest.
\<close>

theorem parse_version_metadata_timestamp_error_first:
  "VersionMetadata_get_schema
     (example_artifact ''pkg-1.0.tar.gz'' ''source'' ''xyz'' ''not-a-date'') \<and>
   \<not> is_hex_string 32 ''xyz'' \<and>
   parse_version_metadata fromisoformat_seconds
     (example_artifact ''pkg-1.0.tar.gz'' ''source'' ''xyz'' ''not-a-date'') =
   Inl (ApiException ''Failed to convert timestamp: not-a-date'') \<and>
   \<not> mentions ''Failed to convert timestamp: not-a-date'' ''MD5'' \<and>
   \<not> mentions ''Failed to convert timestamp: not-a-date'' ''md5''"
  by (simp add: example_artifact_schema not_hex_xyz
      parse_version_metadata_fields [OF example_artifact_fields]
      fromisoformat_seconds_not_a_date mentions_def Let_def)

text \<open>
  C6, amended. For every schema-valid artifact whose md5 is not 32 hex digits, or whose
  sha256 is not 64 hex digits, or whose filename or python_version is empty,
  \<^verbatim>\<open>_parse_version_metadata\<close> fails with an \<^verbatim>\<open>ApiException\<close>; when the timestamp parser
  reads its \<^verbatim>\<open>upload_time_iso_8601\<close>, the message is that of the first check that
  fails, in the order MD5, SHA-256, filename, python_version, and names that field. (The
  message of the SHA-256 check prints the MD5 value, as the source does.)
\<close>

theorem parse_version_metadata_rejects:
  assumes "VersionMetadata_get_schema d"
    and "get_member d ''digests'' = Inr dg"
    and "get_string dg ''md5'' = Inr m"
    and "get_string dg ''sha256'' = Inr s"
    and "get_string d ''filename'' = Inr fn"
    and "get_string d ''python_version'' = Inr pv"
    and "get_string d ''upload_time_iso_8601'' = Inr ts"
    and "\<not> is_hex_string 32 m \<or> \<not> is_hex_string 64 s \<or> fn = [] \<or> pv = []"
  shows "(\<exists>msg. parse_version_metadata fromisoformat d = Inl (ApiException msg)) \<and>
         (fromisoformat ts \<noteq> None \<longrightarrow>
            (\<exists>msg. parse_version_metadata fromisoformat d = Inl (ApiException msg) \<and>
               msg = (if \<not> is_valid_md5 m
                      then ''VersionMetadata MD5 hash is invalid: '' @ m
                      else if \<not> is_valid_sha256 s
                      then ''VersionMetadata SHA-256 hash is invalid: '' @ m
                      else if fn = []
                      then ''`VersionMetadata.filename` field is empty: ''
                      else ''`VersionMetadata.python_version` field is empty: '') \<and>
               mentions msg
                 (if \<not> is_valid_md5 m then ''MD5''
                  else if \<not> is_valid_sha256 s then ''SHA-256''
                  else if fn = [] then ''filename''
                  else ''python_version'')))"
proof -
  from VersionMetadata_schema_fields [OF assms(1)] assms(2-7)
  obtain sz u where f: "get_int d ''size'' = Inr sz" "get_string d ''url'' = Inr u"
    by auto
  note closed = parse_version_metadata_fields
    [OF assms(7) f(1) assms(2) assms(3) assms(4) assms(5) assms(6) f(2), of fromisoformat]
  have bad: "\<not> is_valid_md5 m \<or> \<not> is_valid_sha256 s \<or> fn = [] \<or> pv = []"
    using assms(8) is_valid_md5_hex is_valid_sha256_hex by blast
  let ?r = "fromisoformat ts"
  show ?thesis
  proof (cases ?r)
    case None
    then show ?thesis by (simp add: closed)
  next
    case (Some t)
    from bad consider
      (md5) "\<not> is_valid_md5 m"
      | (sha) "is_valid_md5 m" "\<not> is_valid_sha256 s"
      | (fname) "is_valid_md5 m" "is_valid_sha256 s" "fn = []"
      | (pyver) "is_valid_md5 m" "is_valid_sha256 s" "fn \<noteq> []" "pv = []"
      by blast
    then show ?thesis
    proof cases
      case md5
      with Some mentions_MD5 [of m] show ?thesis by (simp add: closed)
    next
      case sha
      with Some mentions_SHA [of m] show ?thesis by (simp add: closed)
    next
      case fname
      with Some mentions_filename show ?thesis by (simp add: closed)
    next
      case pyver
      with Some mentions_python_version show ?thesis by (simp add: closed)
    qed
  qed
qed

theorem parse_version_metadata_rejects_witness:
  "\<not> is_hex_string 32 ''xyz'' \<and>
   parse_version_metadata fromisoformat_seconds
     (example_artifact ''pkg-1.0.tar.gz'' ''source'' ''xyz'' ''2023-05-22T15:12:44'') =
   Inl (ApiException ''VersionMetadata MD5 hash is invalid: xyz'') \<and>
   mentions ''VersionMetadata MD5 hash is invalid: xyz'' ''MD5''"
proof -
  have nv: "\<not> is_valid_md5 ''xyz''"
    by (simp add: is_valid_md5_def)
  have bad: "\<not> is_hex_string 32 ''xyz'' \<or> \<not> is_hex_string 64 example_sha256 \<or>
             ''pkg-1.0.tar.gz'' = [] \<or> ''source'' = []"
    by (simp add: not_hex_xyz)
  from parse_version_metadata_rejects
    [where fromisoformat = fromisoformat_seconds and ts = "''2023-05-22T15:12:44''",
     OF example_artifact_schema example_artifact_fields(3,4,5,6,7,1) bad]
  show ?thesis
    by (simp add: fromisoformat_seconds_example nv not_hex_xyz)
qed

subsection \<open>C3: the source metadata of a package\<close>

text \<open>
  C3. For every schema-valid top-level response (of either endpoint) with the array
  \<open>us\<close> under \<^verbatim>\<open>urls\<close> and the object \<open>ij\<close> under \<^verbatim>\<open>info\<close>: when no entry of \<open>us\<close> has
  \<^verbatim>\<open>python_version == "source"\<close>, \<^verbatim>\<open>_parse_package_info\<close> fails with the \<^verbatim>\<open>ApiException\<close>
  "Source artifacts are not provided!"; otherwise it parses the first such entry \<open>u\<close>.
  An error of that parse is the error of \<^verbatim>\<open>_parse_package_info\<close>. When that parse
  returns \<open>vm\<close>: if the six required fields license, name, package_url, project_url,
  release_url and version are not empty, \<^verbatim>\<open>_parse_package_info\<close> returns a package info
  whose source metadata is \<open>vm\<close>; if one of them is empty, it fails with an
  \<^verbatim>\<open>ApiException\<close>; and whatever package info it returns has \<open>vm\<close> as its source
  metadata.
\<close>

theorem parse_package_info_first_source:
  assumes "PackageInfo_get_schema rr data"
    and "obj_get data ''urls'' = Some (JArray us)"
    and "get_member data ''info'' = Inr ij"
  shows "(List.find is_source_artifact us = None \<longrightarrow>
            parse_package_info f data =
              Inl (ApiException ''Source artifacts are not provided!'')) \<and>
         (\<forall>u. List.find is_source_artifact us = Some u \<longrightarrow>
            (\<forall>e. parse_version_metadata f u = Inl e \<longrightarrow> parse_package_info f data = Inl e) \<and>
            (\<forall>vm. parse_version_metadata f u = Inr vm \<longrightarrow>
               ((\<forall>k \<in> set [''license'', ''name'', ''package_url'', ''project_url'',
                            ''release_url'', ''version'']. get_string ij k \<noteq> Inr []) \<longrightarrow>
                (\<exists>pi. parse_package_info f data = Inr pi \<and> source_metadata pi = vm)) \<and>
               ((\<exists>k \<in> set [''license'', ''name'', ''package_url'', ''project_url'',
                            ''release_url'', ''version'']. get_string ij k = Inr []) \<longrightarrow>
                (\<exists>msg. parse_package_info f data = Inl (ApiException msg))) \<and>
               (\<forall>pi. parse_package_info f data = Inr pi \<longrightarrow> source_metadata pi = vm)))"
proof -
  note scan = scan_urls_find [OF PackageInfo_schema_urls [OF assms(1,2)], of f]
  have none: "parse_package_info f data =
                Inl (ApiException ''Source artifacts are not provided!'')"
    if "List.find is_source_artifact us = None"
    using that scan parse_package_info_no_source [OF assms(2), of f] by simp
  have err: "parse_package_info f data = Inl e"
    if "List.find is_source_artifact us = Some u" "parse_version_metadata f u = Inl e" for u e
    using that scan parse_package_info_scan_error [OF assms(2), of f e] by simp
  have ok: "((\<forall>k \<in> set [''license'', ''name'', ''package_url'', ''project_url'',
                         ''release_url'', ''version'']. get_string ij k \<noteq> Inr []) \<longrightarrow>
             (\<exists>pi. parse_package_info f data = Inr pi \<and> source_metadata pi = vm)) \<and>
            ((\<exists>k \<in> set [''license'', ''name'', ''package_url'', ''project_url'',
                         ''release_url'', ''version'']. get_string ij k = Inr []) \<longrightarrow>
             (\<exists>msg. parse_package_info f data = Inl (ApiException msg))) \<and>
            (\<forall>pi. parse_package_info f data = Inr pi \<longrightarrow> source_metadata pi = vm)"
    if "List.find is_source_artifact us = Some u" "parse_version_metadata f u = Inr vm" for u vm
  proof -
    from that scan have sc: "scan_urls f us = Inr (Some vm)" by simp
    obtain ij' pu where ij': "get_member data ''info'' = Inr ij'"
      "get_member ij' ''project_urls'' = Inr (JObject pu)"
      by (rule PackageInfo_schema_project_urls [OF assms(1)])
    from ij'(1) assms(3) have "ij' = ij" by simp
    with ij'(2) have pu: "get_member ij ''project_urls'' = Inr (JObject pu)" by simp
    obtain l n pk pr ru v h sr where
      flds: "get_string ij ''license'' = Inr l" "get_string ij ''name'' = Inr n"
        "get_string ij ''package_url'' = Inr pk" "get_string ij ''project_url'' = Inr pr"
        "get_string ij ''release_url'' = Inr ru" "get_string ij ''version'' = Inr v" and
      bad: "l = [] \<or> n = [] \<or> pk = [] \<or> pr = [] \<or> ru = [] \<or> v = [] \<longrightarrow>
         (\<exists>msg. parse_package_info f data = Inl (ApiException msg))" and
      good: "l \<noteq> [] \<and> n \<noteq> [] \<and> pk \<noteq> [] \<and> pr \<noteq> [] \<and> ru \<noteq> [] \<and> v \<noteq> [] \<longrightarrow>
         (\<exists>pi. parse_package_info f data = Inr pi \<and> license pi = l \<and> name pi = n \<and>
            package_url pi = pk \<and> project_url pi = pr \<and> release_url pi = ru \<and>
            version pi = v \<and> homepage_url pi = h \<and> source_url pi = sr \<and>
            source_metadata pi = vm)"
      by (rule parse_package_info_schema [OF assms(1,2) sc assms(3) pu])
    let ?e = "l = [] \<or> n = [] \<or> pk = [] \<or> pr = [] \<or> ru = [] \<or> v = []"
    have all_iff: "(\<forall>k \<in> set [''license'', ''name'', ''package_url'', ''project_url'',
                         ''release_url'', ''version'']. get_string ij k \<noteq> Inr []) \<longleftrightarrow> \<not> ?e"
      by (simp add: flds)
    have ex_iff: "(\<exists>k \<in> set [''license'', ''name'', ''package_url'', ''project_url'',
                         ''release_url'', ''version'']. get_string ij k = Inr []) \<longleftrightarrow> ?e"
      by (simp add: flds)
    show ?thesis
    proof (cases ?e)
      case True
      with bad obtain msg where "parse_package_info f data = Inl (ApiException msg)"
        by auto
      with True show ?thesis unfolding all_iff ex_iff by simp
    next
      case False
      with good obtain pi where "parse_package_info f data = Inr pi" "source_metadata pi = vm"
        by auto
      with False show ?thesis unfolding all_iff ex_iff by simp
    qed
  qed
  from none err ok show ?thesis by simp
qed

theorem parse_package_info_first_source_witness:
  "List.find is_source_artifact
     [example_artifact ''pkg-1.0-py3-none-any.whl'' ''py3'' example_md5 ''2023-05-22T15:12:44'',
      example_artifact ''pkg-1.0.tar.gz'' ''source'' example_md5 ''2023-05-22T15:12:44''] =
     Some (example_artifact ''pkg-1.0.tar.gz'' ''source'' example_md5 ''2023-05-22T15:12:44'') \<and>
   parse_package_info fromisoformat_seconds
     (example_response []
        [example_artifact ''pkg-1.0-py3-none-any.whl'' ''py3'' example_md5 ''2023-05-22T15:12:44'',
         example_artifact ''pkg-1.0.tar.gz'' ''source'' example_md5 ''2023-05-22T15:12:44''] []) =
     Inr (example_info [] [] (example_metadata ''pkg-1.0.tar.gz'' ''source'')) \<and>
   source_metadata (example_info [] [] (example_metadata ''pkg-1.0.tar.gz'' ''source'')) =
     example_metadata ''pkg-1.0.tar.gz'' ''source'' \<and>
   List.find is_source_artifact
     [example_artifact ''pkg-1.0-py3-none-any.whl'' ''py3'' example_md5 ''2023-05-22T15:12:44''] =
     None \<and>
   parse_package_info fromisoformat_seconds
     (example_response []
        [example_artifact ''pkg-1.0-py3-none-any.whl'' ''py3'' example_md5 ''2023-05-22T15:12:44'']
        []) =
     Inl (ApiException ''Source artifacts are not provided!'')"
proof -
  let ?whl = "example_artifact ''pkg-1.0-py3-none-any.whl'' ''py3'' example_md5
                ''2023-05-22T15:12:44''"
  let ?sdist = "example_artifact ''pkg-1.0.tar.gz'' ''source'' example_md5
                  ''2023-05-22T15:12:44''"
  have s2: "PackageInfo_get_schema False (example_response [] [?whl, ?sdist] [])"
    by (rule example_response_schema)
      (simp_all add: project_urls_schema_examples releases_schema_examples
        example_artifact_schema)
  have s1: "PackageInfo_get_schema False (example_response [] [?whl] [])"
    by (rule example_response_schema)
      (simp_all add: project_urls_schema_examples releases_schema_examples
        example_artifact_schema)
  from parse_package_info_first_source
      [OF s2 example_response_members(1,3), of fromisoformat_seconds]
    parse_package_info_first_source
      [OF s1 example_response_members(1,3), of fromisoformat_seconds]
  show ?thesis
    by (simp add: example_artifact_is_source parse_example_response_wheel_sdist
        parse_example_response_wheel_only example_info_def)
qed

subsection \<open>C7: the optional project URLs\<close>

text \<open>
  C7. For every schema-valid top-level response with the object \<open>pu\<close> under
  \<^verbatim>\<open>info.project_urls\<close>: a package info that \<^verbatim>\<open>_parse_package_info\<close> returns has the
  empty string as \<^verbatim>\<open>homepage_url\<close> when \<open>pu\<close> lacks the key \<^verbatim>\<open>Homepage\<close>, and as
  \<^verbatim>\<open>source_url\<close> when \<open>pu\<close> lacks the key \<^verbatim>\<open>Source\<close> (and the value under the key when
  it is there); and the absences are no cause of failure: whenever the first source
  artifact of \<^verbatim>\<open>urls\<close> parses and the six required fields license, name, package_url,
  project_url, release_url and version are not empty, \<^verbatim>\<open>_parse_package_info\<close> returns a
  package info, whatever \<open>pu\<close> holds.
\<close>

theorem parse_package_info_optional_urls:
  assumes "PackageInfo_get_schema rr data"
    and "get_member data ''info'' = Inr ij"
    and "get_member ij ''project_urls'' = Inr (JObject pu)"
  shows "(\<forall>pi. parse_package_info f data = Inr pi \<longrightarrow>
            (map_of pu ''Homepage'' = None \<longrightarrow> homepage_url pi = []) \<and>
            (map_of pu ''Source'' = None \<longrightarrow> source_url pi = []) \<and>
            (\<forall>h. map_of pu ''Homepage'' = Some (JString h) \<longrightarrow> homepage_url pi = h) \<and>
            (\<forall>s. map_of pu ''Source'' = Some (JString s) \<longrightarrow> source_url pi = s)) \<and>
         (\<forall>us u vm.
            obj_get data ''urls'' = Some (JArray us) \<and>
            List.find is_source_artifact us = Some u \<and>
            parse_version_metadata f u = Inr vm \<and>
            (\<forall>k \<in> set [''license'', ''name'', ''package_url'', ''project_url'',
                        ''release_url'', ''version'']. get_string ij k \<noteq> Inr []) \<longrightarrow>
            (\<exists>pi. parse_package_info f data = Inr pi))"
proof -
  from PackageInfo_schema_parts [OF assms(1)] obtain us0 where
    us0: "obj_get data ''urls'' = Some (JArray us0)" by (elim exE conjE)
  have vals: "(map_of pu ''Homepage'' = None \<longrightarrow> homepage_url pi = []) \<and>
      (map_of pu ''Source'' = None \<longrightarrow> source_url pi = []) \<and>
      (\<forall>h. map_of pu ''Homepage'' = Some (JString h) \<longrightarrow> homepage_url pi = h) \<and>
      (\<forall>s. map_of pu ''Source'' = Some (JString s) \<longrightarrow> source_url pi = s)"
    if ok: "parse_package_info f data = Inr pi" for pi
  proof -
    obtain vm where sc: "scan_urls f us0 = Inr (Some vm)"
      by (rule parse_package_info_Inr_scan [OF assms(1) us0 ok])
    obtain l n pk pr ru v h sr where
      h: "map_of pu ''Homepage'' = None \<longrightarrow> h = []"
        "map_of pu ''Homepage'' \<noteq> None \<longrightarrow> map_of pu ''Homepage'' = Some (JString h)" and
      sr: "map_of pu ''Source'' = None \<longrightarrow> sr = []"
        "map_of pu ''Source'' \<noteq> None \<longrightarrow> map_of pu ''Source'' = Some (JString sr)" and
      bad: "l = [] \<or> n = [] \<or> pk = [] \<or> pr = [] \<or> ru = [] \<or> v = [] \<longrightarrow>
         (\<exists>msg. parse_package_info f data = Inl (ApiException msg))" and
      good: "l \<noteq> [] \<and> n \<noteq> [] \<and> pk \<noteq> [] \<and> pr \<noteq> [] \<and> ru \<noteq> [] \<and> v \<noteq> [] \<longrightarrow>
         (\<exists>pi. parse_package_info f data = Inr pi \<and> license pi = l \<and> name pi = n \<and>
            package_url pi = pk \<and> project_url pi = pr \<and> release_url pi = ru \<and>
            version pi = v \<and> homepage_url pi = h \<and> source_url pi = sr \<and>
            source_metadata pi = vm)"
      by (rule parse_package_info_schema [OF assms(1) us0 sc assms(2,3)])
    from bad ok have "l \<noteq> [] \<and> n \<noteq> [] \<and> pk \<noteq> [] \<and> pr \<noteq> [] \<and> ru \<noteq> [] \<and> v \<noteq> []"
      by auto
    with good ok have "homepage_url pi = h" "source_url pi = sr" by auto
    with h sr show ?thesis by auto
  qed
  have succeeds: "\<exists>pi. parse_package_info f data = Inr pi"
    if us: "obj_get data ''urls'' = Some (JArray us)"
      and u: "List.find is_source_artifact us = Some u"
      and vm: "parse_version_metadata f u = Inr vm"
      and ne: "\<forall>k \<in> set [''license'', ''name'', ''package_url'', ''project_url'',
                        ''release_url'', ''version'']. get_string ij k \<noteq> Inr []"
    for us u vm
  proof -
    from scan_urls_find [OF PackageInfo_schema_urls [OF assms(1) us], of f] u vm
    have sc: "scan_urls f us = Inr (Some vm)" by simp
    obtain l n pk pr ru v h sr where
      flds: "get_string ij ''license'' = Inr l" "get_string ij ''name'' = Inr n"
        "get_string ij ''package_url'' = Inr pk" "get_string ij ''project_url'' = Inr pr"
        "get_string ij ''release_url'' = Inr ru" "get_string ij ''version'' = Inr v" and
      good: "l \<noteq> [] \<and> n \<noteq> [] \<and> pk \<noteq> [] \<and> pr \<noteq> [] \<and> ru \<noteq> [] \<and> v \<noteq> [] \<longrightarrow>
         (\<exists>pi. parse_package_info f data = Inr pi \<and> license pi = l \<and> name pi = n \<and>
            package_url pi = pk \<and> project_url pi = pr \<and> release_url pi = ru \<and>
            version pi = v \<and> homepage_url pi = h \<and> source_url pi = sr \<and>
            source_metadata pi = vm)"
      by (rule parse_package_info_schema [OF assms(1) us sc assms(2,3)])
    from ne flds have "l \<noteq> [] \<and> n \<noteq> [] \<and> pk \<noteq> [] \<and> pr \<noteq> [] \<and> ru \<noteq> [] \<and> v \<noteq> []"
      by auto
    with good obtain pi where "parse_package_info f data = Inr pi" by auto
    then show ?thesis by (rule exI)
  qed
  show ?thesis
  proof (intro conjI allI impI)
    fix pi assume ok: "parse_package_info f data = Inr pi"
    {
      assume "map_of pu ''Homepage'' = None"
      with vals [OF ok] show "homepage_url pi = []" by simp
    }
    {
      assume "map_of pu ''Source'' = None"
      with vals [OF ok] show "source_url pi = []" by simp
    }
    {
      fix h assume "map_of pu ''Homepage'' = Some (JString h)"
      with vals [OF ok] show "homepage_url pi = h" by simp
    }
    {
      fix s assume "map_of pu ''Source'' = Some (JString s)"
      with vals [OF ok] show "source_url pi = s" by simp
    }
  next
    fix us u vm
    assume "obj_get data ''urls'' = Some (JArray us) \<and>
            List.find is_source_artifact us = Some u \<and>
            parse_version_metadata f u = Inr vm \<and>
            (\<forall>k \<in> set [''license'', ''name'', ''package_url'', ''project_url'',
                        ''release_url'', ''version'']. get_string ij k \<noteq> Inr [])"
    then show "\<exists>pi. parse_package_info f data = Inr pi"
      using succeeds by (elim conjE) 
  qed
qed

theorem parse_package_info_optional_urls_witness:
  "map_of [(''Homepage'', JString ''https://example.org/pkg'')] ''Source'' = None \<and>
   parse_package_info fromisoformat_seconds
     (example_response [(''Homepage'', JString ''https://example.org/pkg'')]
        [example_artifact ''pkg-1.0.tar.gz'' ''source'' example_md5 ''2023-05-22T15:12:44''] []) =
     Inr (example_info ''https://example.org/pkg'' []
            (example_metadata ''pkg-1.0.tar.gz'' ''source'')) \<and>
   homepage_url (example_info ''https://example.org/pkg'' []
                   (example_metadata ''pkg-1.0.tar.gz'' ''source'')) =
     ''https://example.org/pkg'' \<and>
   source_url (example_info ''https://example.org/pkg'' []
                 (example_metadata ''pkg-1.0.tar.gz'' ''source'')) = []"
proof -
  let ?sdist = "example_artifact ''pkg-1.0.tar.gz'' ''source'' example_md5
                  ''2023-05-22T15:12:44''"
  let ?pu = "[(''Homepage'', JString ''https://example.org/pkg'')]"
  have s: "PackageInfo_get_schema False (example_response ?pu [?sdist] [])"
    by (rule example_response_schema)
      (simp_all add: project_urls_schema_examples releases_schema_examples
        example_artifact_schema)
  from parse_package_info_optional_urls
      [OF s example_response_members(3,4), of fromisoformat_seconds]
  show ?thesis
    by (simp add: parse_example_response_homepage example_info_def)
qed

subsection \<open>C1: the preference for tarballs\<close>

text \<open>
  C1 says that among two or more source artifacts of a release the one whose filename
  contains \<^verbatim>\<open>.tar\<close> is chosen, whatever the order. The source tests
  \<^verbatim>\<open>if rel_artifact.filename.find(".tar")\<close>: \<^verbatim>\<open>find\<close> returns \<open>-1\<close> when the substring
  is absent, and \<open>-1\<close> counts as true, so the first artifact is chosen unless its
  filename starts with \<^verbatim>\<open>.tar\<close>. The code at the input of the claim, with
  \<^verbatim>\<open>pkg-1.0.zip\<close> listed before \<^verbatim>\<open>pkg-1.0.tar.gz\<close>: the zip is selected, and the fetch
  stores it under the version.
\<close>

theorem zip_selected_before_tarball:
  "str_find ''pkg-1.0.zip'' ''.tar'' = - 1 \<and>
   selected_artifact fromisoformat_seconds
     (JArray
        [example_artifact ''pkg-1.0.zip'' ''source'' example_md5 ''2023-05-22T15:12:44'',
         example_artifact ''pkg-1.0.tar.gz'' ''source'' example_md5 ''2023-05-22T15:12:44'']) =
     Inr (example_metadata ''pkg-1.0.zip'' ''source'') \<and>
   fetch_package_metadata
     (serve (example_response []
        [example_artifact ''pkg-1.0.tar.gz'' ''source'' example_md5 ''2023-05-22T15:12:44'']
        [(''1.0'', JArray
           [example_artifact ''pkg-1.0.zip'' ''source'' example_md5 ''2023-05-22T15:12:44'',
            example_artifact ''pkg-1.0.tar.gz'' ''source'' example_md5
              ''2023-05-22T15:12:44''])]))
     fromisoformat_seconds ''pkg'' =
   Inr \<lparr>info = example_info [] [] (example_metadata ''pkg-1.0.tar.gz'' ''source''),
        releases = [(''1.0'', example_metadata ''pkg-1.0.zip'' ''source'')]\<rparr>"
proof -
  have "selected_artifact fromisoformat_seconds
     (JArray
        [example_artifact ''pkg-1.0.zip'' ''source'' example_md5 ''2023-05-22T15:12:44'',
         example_artifact ''pkg-1.0.tar.gz'' ''source'' example_md5 ''2023-05-22T15:12:44'']) =
     Inr (example_metadata ''pkg-1.0.zip'' ''source'')"
    by code_simp
  with str_find_zip fetch_example_zip_tar show ?thesis by (intro conjI)
qed

subsection \<open>C4: the releases mapping of a full fetch\<close>

text \<open>
  C4. When a full fetch returns \<open>pm\<close> for the validated response \<open>data\<close> whose
  \<^verbatim>\<open>releases\<close> object has the items \<open>rel\<close> (a dict: every key once): \<open>info pm\<close> is the
  parsed package info; under every key of \<open>rel\<close>, the key \<^verbatim>\<open>info.version\<close> included,
  \<open>releases pm\<close> holds the artifact selected from the array of that release; under any
  other key it holds what the seed \<^verbatim>\<open>{info.version: info.source_metadata}\<close> holds; its
  keys are \<^verbatim>\<open>info.version\<close> and the keys of \<open>rel\<close>, each once.
\<close>

theorem fetch_package_metadata_releases:
  assumes "fetch_package_metadata http_get f package = Inr pm"
    and "make_request_and_validate http_get (calc_package_metadata_url package)
           (PackageInfo_get_schema True) = Inr data"
    and "obj_get data ''releases'' = Some (JObject rel)"
    and "distinct (map fst rel)"
  shows "parse_package_info f data = Inr (info pm) \<and>
         (\<forall>(ver, a) \<in> set rel.
            \<exists>c. selected_artifact f a = Inr c \<and> map_of (releases pm) ver = Some c) \<and>
         (\<forall>k. k \<notin> fst ` set rel \<longrightarrow>
            map_of (releases pm) k =
              map_of [(version (info pm), source_metadata (info pm))] k) \<and>
         fst ` set (releases pm) = insert (version (info pm)) (fst ` set rel) \<and>
         distinct (map fst (releases pm))"
proof -
  obtain data' rel' where
    d: "make_request_and_validate http_get (calc_package_metadata_url package)
          (PackageInfo_get_schema True) = Inr data'"
    and pi: "parse_package_info f data' = Inr (info pm)"
    and r: "obj_get data' ''releases'' = Some (JObject rel')"
    and sc: "scan_releases f rel' [(version (info pm), source_metadata (info pm))] =
               Inr (releases pm)"
    by (rule fetch_package_metadata_Inr [OF assms(1)])
  from d assms(2) have "data' = data" by simp
  with r assms(3) pi sc have pi': "parse_package_info f data = Inr (info pm)"
    and sc': "scan_releases f rel [(version (info pm), source_metadata (info pm))] =
                Inr (releases pm)"
    by simp_all
  note m = scan_releases_map [OF assms(4) sc']
  from m have sel: "\<forall>(ver, a) \<in> set rel.
      \<exists>c. selected_artifact f a = Inr c \<and> map_of (releases pm) ver = Some c"
    by (rule conjunct1)
  from m have others: "\<forall>k. k \<notin> fst ` set rel \<longrightarrow>
      map_of (releases pm) k = map_of [(version (info pm), source_metadata (info pm))] k"
    by (elim conjE)
  from m have keys: "fst ` set (releases pm) = insert (version (info pm)) (fst ` set rel)"
    by (elim conjE) simp
  from m have dist: "distinct (map fst (releases pm))"
    by (elim conjE) simp
  from pi' sel others keys dist show ?thesis by (intro conjI)
qed

theorem fetch_package_metadata_releases_witness:
  "fetch_package_metadata
     (serve (example_response []
        [example_artifact ''pkg-1.0.zip'' ''source'' example_md5 ''2023-05-22T15:12:44'']
        [(''0.9'', JArray
           [example_artifact ''pkg-0.9.tar.gz'' ''source'' example_md5 ''2023-05-22T15:12:44'']),
         (''1.0'', JArray
           [example_artifact ''pkg-1.0-py3-none-any.whl'' ''py3'' example_md5
              ''2023-05-22T15:12:44'',
            example_artifact ''pkg-1.0.tar.gz'' ''source'' example_md5
              ''2023-05-22T15:12:44''])]))
     fromisoformat_seconds ''pkg'' =
   Inr \<lparr>info = example_info [] [] (example_metadata ''pkg-1.0.zip'' ''source''),
        releases = [(''1.0'', example_metadata ''pkg-1.0.tar.gz'' ''source''),
                    (''0.9'', example_metadata ''pkg-0.9.tar.gz'' ''source'')]\<rparr> \<and>
   version (example_info [] [] (example_metadata ''pkg-1.0.zip'' ''source'')) = ''1.0'' \<and>
   selected_artifact fromisoformat_seconds
     (JArray
        [example_artifact ''pkg-1.0-py3-none-any.whl'' ''py3'' example_md5
           ''2023-05-22T15:12:44'',
         example_artifact ''pkg-1.0.tar.gz'' ''source'' example_md5 ''2023-05-22T15:12:44'']) =
     Inr (example_metadata ''pkg-1.0.tar.gz'' ''source'') \<and>
   map_of [(''1.0'', example_metadata ''pkg-1.0.tar.gz'' ''source''),
           (''0.9'', example_metadata ''pkg-0.9.tar.gz'' ''source'')] ''1.0'' =
     Some (example_metadata ''pkg-1.0.tar.gz'' ''source'')"
proof -
  let ?rel = "[(''0.9'', JArray
                 [example_artifact ''pkg-0.9.tar.gz'' ''source'' example_md5
                    ''2023-05-22T15:12:44'']),
               (''1.0'', JArray
                 [example_artifact ''pkg-1.0-py3-none-any.whl'' ''py3'' example_md5
                    ''2023-05-22T15:12:44'',
                  example_artifact ''pkg-1.0.tar.gz'' ''source'' example_md5
                    ''2023-05-22T15:12:44''])]"
  let ?R = "example_response []
              [example_artifact ''pkg-1.0.zip'' ''source'' example_md5
                 ''2023-05-22T15:12:44''] ?rel"
  have schema: "PackageInfo_get_schema True ?R"
    by (simp add: example_response_full_schema example_artifact_schema type_in_def items_def)
  have dist: "distinct (map fst ?rel)" by simp
  have sel: "selected_artifact fromisoformat_seconds
     (JArray
        [example_artifact ''pkg-1.0-py3-none-any.whl'' ''py3'' example_md5
           ''2023-05-22T15:12:44'',
         example_artifact ''pkg-1.0.tar.gz'' ''source'' example_md5 ''2023-05-22T15:12:44'']) =
     Inr (example_metadata ''pkg-1.0.tar.gz'' ''source'')"
    by code_simp
  have mrv: "make_request_and_validate (serve ?R) (calc_package_metadata_url ''pkg'')
               (PackageInfo_get_schema True) = Inr ?R"
    by (rule make_request_and_validate_serve) (rule schema)
  from fetch_package_metadata_releases
    [OF fetch_example_two_releases mrv example_response_members(2) dist]
  show ?thesis
    by (simp add: fetch_example_two_releases sel example_info_def)
qed

subsection \<open>C5: a release without source artifacts\<close>

text \<open>
  As C5 is stated, the error of the fetch is the one for a release without source
  artifacts. An exception raised before the scan reaches that release comes first: in the
  response below, release 1.0 has a wheel only, release 0.9, scanned before it, has a
  source artifact whose MD5 is rejected, and that is the error of the fetch.
\<close>

theorem fetch_package_metadata_other_error_first:
  "PackageInfo_get_schema True
     (example_response []
        [example_artifact ''pkg-1.0.tar.gz'' ''source'' example_md5 ''2023-05-22T15:12:44'']
        [(''0.9'', JArray
           [example_artifact ''pkg-0.9.tar.gz'' ''source'' ''xyz'' ''2023-05-22T15:12:44'']),
         (''1.0'', JArray
           [example_artifact ''pkg-1.0-py3-none-any.whl'' ''py3'' example_md5
              ''2023-05-22T15:12:44''])]) \<and>
   filter is_source_artifact
     [example_artifact ''pkg-1.0-py3-none-any.whl'' ''py3'' example_md5
        ''2023-05-22T15:12:44''] = [] \<and>
   fetch_package_metadata
     (serve (example_response []
        [example_artifact ''pkg-1.0.tar.gz'' ''source'' example_md5 ''2023-05-22T15:12:44'']
        [(''0.9'', JArray
           [example_artifact ''pkg-0.9.tar.gz'' ''source'' ''xyz'' ''2023-05-22T15:12:44'']),
         (''1.0'', JArray
           [example_artifact ''pkg-1.0-py3-none-any.whl'' ''py3'' example_md5
              ''2023-05-22T15:12:44''])]))
     fromisoformat_seconds ''pkg'' =
   Inl (ApiException ''VersionMetadata MD5 hash is invalid: xyz'')"
  by (simp add: fetch_example_bad_md5_then_wheel_only example_artifact_is_source
      example_response_full_schema example_artifact_schema type_in_def items_def)

text \<open>
  C5, amended. For every schema-valid full-fetch response in which some release has no
  entry with \<^verbatim>\<open>python_version == "source"\<close>, \<^verbatim>\<open>fetch_package_metadata\<close> fails with an
  \<^verbatim>\<open>ApiException\<close> and returns no \<open>PackageMetadata\<close>; when the package info parses and
  every source artifact of the releases scanned before that release parses, the message
  is "API did not return any source artifacts.", whatever the releases after it hold.
\<close>

theorem fetch_package_metadata_no_source_release:
  assumes "make_request_and_validate http_get (calc_package_metadata_url package)
             (PackageInfo_get_schema True) = Inr data"
    and "obj_get data ''releases'' = Some (JObject rel)"
    and "(ver, JArray arts) \<in> set rel"
    and "filter is_source_artifact arts = []"
  shows "(\<exists>msg. fetch_package_metadata http_get f package = Inl (ApiException msg)) \<and>
         (\<forall>pre post.
            rel = pre @ (ver, JArray arts) # post \<and>
            (\<exists>pi. parse_package_info f data = Inr pi) \<and>
            (\<forall>(v, a) \<in> set pre. \<forall>arts'. a = JArray arts' \<longrightarrow>
               (\<forall>x \<in> set arts'. is_source_artifact x \<longrightarrow>
                  (\<exists>vm. parse_version_metadata f x = Inr vm))) \<longrightarrow>
            fetch_package_metadata http_get f package =
              Inl (ApiException ''API did not return any source artifacts.''))"
proof -
  note schema = make_request_and_validate_Inr(1) [OF assms(1)]
  note rs = PackageInfo_schema_releases_of [OF schema assms(2)]
  have fails: "\<exists>msg. fetch_package_metadata http_get f package = Inl (ApiException msg)"
  proof -
    let ?p = "parse_package_info f data"
    show ?thesis
    proof (cases ?p)
      case (Inl e)
      from parse_package_info_Inl [OF schema Inl]
        fetch_package_metadata_info_error [OF assms(1) Inl]
      show ?thesis by auto
    next
      case (Inr pi)
      from scan_releases_fails
        [OF rs assms(3,4), where f = f and seed = "[(version pi, source_metadata pi)]"]
      obtain msg where
        "scan_releases f rel [(version pi, source_metadata pi)] = Inl (ApiException msg)"
        by (elim exE)
      with fetch_package_metadata_scan [OF assms(1) Inr assms(2)] show ?thesis by simp
    qed
  qed
  have message: "fetch_package_metadata http_get f package =
      Inl (ApiException ''API did not return any source artifacts.'')"
    if split: "rel = pre @ (ver, JArray arts) # post"
      and pi: "parse_package_info f data = Inr pi"
      and ok: "\<forall>(v, a) \<in> set pre. \<forall>arts'. a = JArray arts' \<longrightarrow>
             (\<forall>x \<in> set arts'. is_source_artifact x \<longrightarrow>
                (\<exists>vm. parse_version_metadata f x = Inr vm))"
    for pre post pi
  proof -
    from scan_releases_fails_at [OF rs [unfolded split] assms(4) ok]
    have "scan_releases f rel [(version pi, source_metadata pi)] =
            Inl (ApiException ''API did not return any source artifacts.'')"
      by (simp add: split)
    with fetch_package_metadata_scan [OF assms(1) pi assms(2)] show ?thesis by simp
  qed
  show ?thesis
  proof (intro conjI allI impI)
    show "\<exists>msg. fetch_package_metadata http_get f package = Inl (ApiException msg)"
      by (rule fails)
  next
    fix pre post
    assume h: "rel = pre @ (ver, JArray arts) # post \<and>
            (\<exists>pi. parse_package_info f data = Inr pi) \<and>
            (\<forall>(v, a) \<in> set pre. \<forall>arts'. a = JArray arts' \<longrightarrow>
               (\<forall>x \<in> set arts'. is_source_artifact x \<longrightarrow>
                  (\<exists>vm. parse_version_metadata f x = Inr vm)))"
    then obtain pi where "parse_package_info f data = Inr pi" by (elim conjE exE)
    with h show "fetch_package_metadata http_get f package =
              Inl (ApiException ''API did not return any source artifacts.'')"
      by (elim conjE) (rule message)
  qed
qed

theorem fetch_package_metadata_no_source_release_witness:
  "filter is_source_artifact
     [example_artifact ''pkg-1.0-py3-none-any.whl'' ''py3'' example_md5
        ''2023-05-22T15:12:44''] = [] \<and>
   (\<exists>msg. parse_version_metadata fromisoformat_seconds
      (example_artifact ''pkg-0.9.tar.gz'' ''source'' ''xyz'' ''2023-05-22T15:12:44'') =
      Inl (ApiException msg)) \<and>
   fetch_package_metadata
     (serve (example_response []
        [example_artifact ''pkg-1.0.tar.gz'' ''source'' example_md5 ''2023-05-22T15:12:44'']
        [(''1.0'', JArray
           [example_artifact ''pkg-1.0-py3-none-any.whl'' ''py3'' example_md5
              ''2023-05-22T15:12:44'']),
         (''0.9'', JArray
           [example_artifact ''pkg-0.9.tar.gz'' ''source'' ''xyz'' ''2023-05-22T15:12:44''])]))
     fromisoformat_seconds ''pkg'' =
   Inl (ApiException ''API did not return any source artifacts.'')"
proof -
  let ?whl = "example_artifact ''pkg-1.0-py3-none-any.whl'' ''py3'' example_md5
                ''2023-05-22T15:12:44''"
  let ?bad = "example_artifact ''pkg-0.9.tar.gz'' ''source'' ''xyz'' ''2023-05-22T15:12:44''"
  let ?post = "[(''0.9'', JArray [?bad])]"
  let ?rel = "(''1.0'', JArray [?whl]) # ?post"
  let ?urls = "[example_artifact ''pkg-1.0.tar.gz'' ''source'' example_md5
                  ''2023-05-22T15:12:44'']"
  let ?R = "example_response [] ?urls ?rel"
  have schema: "PackageInfo_get_schema True ?R"
    by (simp add: example_response_full_schema example_artifact_schema type_in_def items_def)
  have mrv: "make_request_and_validate (serve ?R) (calc_package_metadata_url ''pkg'')
               (PackageInfo_get_schema True) = Inr ?R"
    by (rule make_request_and_validate_serve) (rule schema)
  have mem: "(''1.0'', JArray [?whl]) \<in> set ?rel" by simp
  have nosrc: "filter is_source_artifact [?whl] = []"
    by (simp add: example_artifact_is_source)
  have bad: "parse_version_metadata fromisoformat_seconds ?bad =
               Inl (ApiException ''VersionMetadata MD5 hash is invalid: xyz'')"
    by (simp add: parse_version_metadata_fields [OF example_artifact_fields]
        fromisoformat_seconds_example is_valid_md5_def)
  have info: "\<exists>pi. parse_package_info fromisoformat_seconds ?R = Inr pi"
    by (rule exI, code_simp)
  note t = fetch_package_metadata_no_source_release
    [OF mrv example_response_members(2) mem nosrc, where f = fromisoformat_seconds]
  from t have "[] @ (''1.0'', JArray [?whl]) # ?post = [] @ (''1.0'', JArray [?whl]) # ?post \<and>
      (\<exists>pi. parse_package_info fromisoformat_seconds ?R = Inr pi) \<and>
      (\<forall>(v, a) \<in> set []. \<forall>arts'. a = JArray arts' \<longrightarrow>
         (\<forall>x \<in> set arts'. is_source_artifact x \<longrightarrow>
            (\<exists>vm. parse_version_metadata fromisoformat_seconds x = Inr vm))) \<longrightarrow>
      fetch_package_metadata (serve ?R) fromisoformat_seconds ''pkg'' =
        Inl (ApiException ''API did not return any source artifacts.'')"
    by (elim conjE allE [of _ "[]"] allE [of _ ?post]) simp
  with info have "fetch_package_metadata (serve ?R) fromisoformat_seconds ''pkg'' =
        Inl (ApiException ''API did not return any source artifacts.'')"
    by simp
  with nosrc bad show ?thesis by simp
qed

subsection \<open>C9: the releases mapping of a single-version fetch\<close>

text \<open>
  C9. When a single-version fetch returns \<open>pm\<close>: \<open>releases pm\<close> has exactly one entry,
  \<^verbatim>\<open>info.version\<close> with \<^verbatim>\<open>info.source_metadata\<close>, which is the parse of the first source
  artifact of \<^verbatim>\<open>urls\<close>; and no \<^verbatim>\<open>releases\<close> member is scanned: every schema-valid
  response with the same \<^verbatim>\<open>urls\<close> and \<^verbatim>\<open>info\<close> members gives the same result, whatever
  it holds under \<^verbatim>\<open>releases\<close>.
\<close>

theorem fetch_package_version_metadata_releases:
  assumes "fetch_package_version_metadata http_get f package ver = Inr pm"
  shows "releases pm = [(version (info pm), source_metadata (info pm))] \<and>
         (\<exists>data us u.
            make_request_and_validate http_get
              (calc_package_version_metadata_url package ver)
              (PackageInfo_get_schema False) = Inr data \<and>
            parse_package_info f data = Inr (info pm) \<and>
            obj_get data ''urls'' = Some (JArray us) \<and>
            List.find is_source_artifact us = Some u \<and>
            parse_version_metadata f u = Inr (source_metadata (info pm)) \<and>
            (\<forall>data'. PackageInfo_get_schema False data' \<and>
               obj_get data' ''urls'' = obj_get data ''urls'' \<and>
               obj_get data' ''info'' = obj_get data ''info'' \<longrightarrow>
               fetch_package_version_metadata (serve data') f package ver = Inr pm))"
proof -
  obtain data where
    d: "make_request_and_validate http_get (calc_package_version_metadata_url package ver)
          (PackageInfo_get_schema False) = Inr data"
    and pi: "parse_package_info f data = Inr (info pm)"
    and r: "releases pm = [(version (info pm), source_metadata (info pm))]"
    by (rule fetch_package_version_metadata_Inr [OF assms])
  note schema = make_request_and_validate_Inr(1) [OF d]
  from parse_package_info_source [OF schema pi] obtain us u where
    us: "obj_get data ''urls'' = Some (JArray us)"
    and u: "List.find is_source_artifact us = Some u"
      "parse_version_metadata f u = Inr (source_metadata (info pm))"
    by (elim exE conjE)
  have same: "fetch_package_version_metadata (serve data') f package ver = Inr pm"
    if "PackageInfo_get_schema False data'"
      and "obj_get data' ''urls'' = obj_get data ''urls''"
      and "obj_get data' ''info'' = obj_get data ''info''"
    for data'
    using make_request_and_validate_serve [of "PackageInfo_get_schema False" data', OF that(1)]
      parse_package_info_cong [OF that(2,3), of f] pi r
    by (simp add: fetch_package_version_metadata_def and_then_def)
  from d pi us u same r show ?thesis by auto
qed

theorem fetch_package_version_metadata_releases_witness:
  "fetch_package_version_metadata
     (serve (example_response []
        [example_artifact ''pkg-1.0-py3-none-any.whl'' ''py3'' example_md5
           ''2023-05-22T15:12:44'',
         example_artifact ''pkg-1.0.tar.gz'' ''source'' example_md5 ''2023-05-22T15:12:44'']
        [(''1.0'', JArray
           [example_artifact ''pkg-1.0-py3-none-any.whl'' ''py3'' example_md5
              ''2023-05-22T15:12:44''])]))
     fromisoformat_seconds ''pkg'' ''1.0'' =
   Inr \<lparr>info = example_info [] [] (example_metadata ''pkg-1.0.tar.gz'' ''source''),
        releases = [(''1.0'', example_metadata ''pkg-1.0.tar.gz'' ''source'')]\<rparr> \<and>
   [(version (example_info [] [] (example_metadata ''pkg-1.0.tar.gz'' ''source'')),
     source_metadata (example_info [] [] (example_metadata ''pkg-1.0.tar.gz'' ''source'')))] =
   [(''1.0'', example_metadata ''pkg-1.0.tar.gz'' ''source'')]"
  using fetch_package_version_metadata_releases [OF fetch_version_example]
  by (simp add: fetch_version_example example_info_def)

subsection \<open>C10: every metadata record returned is a valid source record\<close>

text \<open>
  C10. When a fetch, full or single-version, returns \<open>pm\<close>: the source metadata of
  \<open>info pm\<close> and every value of \<open>releases pm\<close> has \<^verbatim>\<open>python_version == "source"\<close>, an MD5
  that passed the format check and is 32 hex digits, a SHA-256 that passed the format
  check and is 64 hex digits, and a filename that is not empty.
\<close>

theorem fetched_metadata_valid:
  assumes "fetch_package_metadata http_get f package = Inr pm \<or>
           fetch_package_version_metadata http_get f package ver = Inr pm"
  shows "valid_source_metadata (source_metadata (info pm)) \<and>
         (\<forall>(k, vm) \<in> set (releases pm). valid_source_metadata vm)"
  using assms
proof
  assume full: "fetch_package_metadata http_get f package = Inr pm"
  obtain data rel where
    d: "make_request_and_validate http_get (calc_package_metadata_url package)
          (PackageInfo_get_schema True) = Inr data"
    and pi: "parse_package_info f data = Inr (info pm)"
    and r: "obj_get data ''releases'' = Some (JObject rel)"
    and sc: "scan_releases f rel [(version (info pm), source_metadata (info pm))] =
               Inr (releases pm)"
    by (rule fetch_package_metadata_Inr [OF full])
  note schema = make_request_and_validate_Inr(1) [OF d]
  from parse_package_info_source [OF schema pi] obtain u where
    "VersionMetadata_get_schema u" "is_source_artifact u"
    "parse_version_metadata f u = Inr (source_metadata (info pm))"
    by (elim exE conjE)
  then have sm: "valid_source_metadata (source_metadata (info pm))"
    by (rule parse_source_artifact_valid)
  then have "\<forall>(k, v) \<in> set [(version (info pm), source_metadata (info pm))].
      valid_source_metadata v" by simp
  from scan_releases_valid [OF PackageInfo_schema_releases_of [OF schema r] sc this] sm
  show ?thesis by simp
next
  assume single: "fetch_package_version_metadata http_get f package ver = Inr pm"
  obtain data where
    d: "make_request_and_validate http_get (calc_package_version_metadata_url package ver)
          (PackageInfo_get_schema False) = Inr data"
    and pi: "parse_package_info f data = Inr (info pm)"
    and r: "releases pm = [(version (info pm), source_metadata (info pm))]"
    by (rule fetch_package_version_metadata_Inr [OF single])
  note schema = make_request_and_validate_Inr(1) [OF d]
  from parse_package_info_source [OF schema pi] obtain u where
    "VersionMetadata_get_schema u" "is_source_artifact u"
    "parse_version_metadata f u = Inr (source_metadata (info pm))"
    by (elim exE conjE)
  then have "valid_source_metadata (source_metadata (info pm))"
    by (rule parse_source_artifact_valid)
  with r show ?thesis by simp
qed

theorem fetched_metadata_valid_witness:
  "fetch_package_metadata
     (serve (example_response []
        [example_artifact ''pkg-1.0.zip'' ''source'' example_md5 ''2023-05-22T15:12:44'']
        [(''0.9'', JArray
           [example_artifact ''pkg-0.9.tar.gz'' ''source'' example_md5 ''2023-05-22T15:12:44'']),
         (''1.0'', JArray
           [example_artifact ''pkg-1.0-py3-none-any.whl'' ''py3'' example_md5
              ''2023-05-22T15:12:44'',
            example_artifact ''pkg-1.0.tar.gz'' ''source'' example_md5
              ''2023-05-22T15:12:44''])]))
     fromisoformat_seconds ''pkg'' =
   Inr \<lparr>info = example_info [] [] (example_metadata ''pkg-1.0.zip'' ''source''),
        releases = [(''1.0'', example_metadata ''pkg-1.0.tar.gz'' ''source''),
                    (''0.9'', example_metadata ''pkg-0.9.tar.gz'' ''source'')]\<rparr> \<and>
   valid_source_metadata (example_metadata ''pkg-1.0.zip'' ''source'') \<and>
   valid_source_metadata (example_metadata ''pkg-1.0.tar.gz'' ''source'') \<and>
   valid_source_metadata (example_metadata ''pkg-0.9.tar.gz'' ''source'')"
  using fetched_metadata_valid [OF disjI1 [OF fetch_example_two_releases]]
  by (simp add: fetch_example_two_releases example_info_def)

end
